theory Spec2Isabelle
  imports Complex_Main "HOL-Library.Sublist"
begin

chapter \<open>The embedding\<close>

section \<open>JavaScript values the services handle\<close>

text \<open>
  A value thrown by an awaited call. The services only ever ask two things of it: is it an
  instance of \<open>Error\<close>, and what is its \<open>message\<close>. \<open>TypeError\<close> and
  \<open>SyntaxError\<close> are instances of \<open>Error\<close>.
\<close>

datatype thrown = Error string | NonError

text \<open>
  Reading a property of \<open>null\<close> throws a \<open>TypeError\<close>; the wording of its message
  is the engine's (here V8's, with the property name in apostrophes).
\<close>

definition null_property_error :: "string \<Rightarrow> thrown" where
  "null_property_error k =
     Error (''Cannot read properties of null (reading '' @ [CHR 0x27] @ k @ [CHR 0x27] @ '')'')"

text \<open>\<open>String.prototype.includes\<close>: the argument occurs as a contiguous substring.\<close>

fun includes_str :: "string \<Rightarrow> string \<Rightarrow> bool" where
  "includes_str [] sub = (sub = [])"
| "includes_str (c # cs) sub = (prefix sub (c # cs) \<or> includes_str cs sub)"

section \<open>services/database.ts: the retry wrapper\<close>

text \<open>
  The wrapped \<open>operation\<close> is a thunk with effects: each invocation may settle
  differently. It is modelled as the outcome of its \<open>k\<close>-th invocation (\<open>Inl\<close> a rejection,
  \<open>Inr\<close> the value); \<open>k\<close> counts the invocations made so far and is not a parameter of the
  source. \<open>retries\<close> and \<open>delay\<close> are JavaScript numbers: \<open>retries\<close> is only ever
  decremented from the default \<open>2\<close>, \<open>delay\<close> is multiplied by \<open>1.5\<close>, which is exact on
  the rationals (and in double precision from the default \<open>1000\<close>).
  The result records how the call settled and the delays it slept through, in order; the
  number of retries is the length of that list.
\<close>

record 'a settled =
  outcome :: "thrown + 'a"
  waits :: "rat list"

definition is_fetch_failure :: "thrown \<Rightarrow> bool" where
  "is_fetch_failure e = (case e of Error msg \<Rightarrow> includes_str msg ''Failed to fetch'' | NonError \<Rightarrow> False)"

function retryOperation :: "(nat \<Rightarrow> thrown + 'a) \<Rightarrow> nat \<Rightarrow> int \<Rightarrow> rat \<Rightarrow> 'a settled" where
  "retryOperation operation k retries delay =
     (case operation k of
        Inr v \<Rightarrow> \<lparr>outcome = Inr v, waits = []\<rparr>
      | Inl e \<Rightarrow>
          if retries > 0 \<and> is_fetch_failure e
          then (let r = retryOperation operation (Suc k) (retries - 1) (delay * (3 / 2))
                in r\<lparr>waits := delay # waits r\<rparr>)
          else \<lparr>outcome = Inl e, waits = []\<rparr>)"
  by pat_completeness auto
termination
  by (relation "measure (\<lambda>(operation, k, retries, delay). nat retries)") auto

declare retryOperation.simps [simp del]

section \<open>services/database.ts: the query builder and the store\<close>

text \<open>
  The Supabase client is not code of this repository. A request is modelled as the value
  the builder chain accumulates, each builder method as a function on that value, and the
  store as a function \<open>exec\<close> from the attempt number and the request to the response
  object \<open>{ data, error, count }\<close> the awaited request settles with (the client reports
  failures, a failed fetch included, in \<open>error\<close> and does not reject).
\<close>

datatype pg_value = PgText string | PgBool bool

datatype filter = Ilike string string | Eq string pg_value | Or string

record 'p query =
  table :: string
  inserted :: "'p list"
  selected :: "string option"
  count_exact :: bool
  filters :: "filter list"
  ordering :: "(string \<times> bool) option"
  limited :: "int option"
  ranged :: "(int \<times> int) option"
  single_row :: bool

record pg_error =
  message :: string
  code :: string

record 'r response =
  data :: "'r option"
  error :: "pg_error option"
  count :: "int option"

type_synonym ('p, 'r) store = "nat \<Rightarrow> 'p query \<Rightarrow> 'r response"

definition from_q :: "string \<Rightarrow> 'p query" where
  "from_q t = \<lparr>table = t, inserted = [], selected = None, count_exact = False, filters = [],
     ordering = None, limited = None, ranged = None, single_row = False\<rparr>"

definition insert_q :: "'p list \<Rightarrow> 'p query \<Rightarrow> 'p query" where
  "insert_q rows q = q\<lparr>inserted := rows\<rparr>"

definition select_q :: "string \<Rightarrow> bool \<Rightarrow> 'p query \<Rightarrow> 'p query" where
  "select_q cols exact q = q\<lparr>selected := Some cols, count_exact := exact\<rparr>"

definition ilike_q :: "string \<Rightarrow> string \<Rightarrow> 'p query \<Rightarrow> 'p query" where
  "ilike_q col pat q = q\<lparr>filters := filters q @ [Ilike col pat]\<rparr>"

definition eq_q :: "string \<Rightarrow> pg_value \<Rightarrow> 'p query \<Rightarrow> 'p query" where
  "eq_q col v q = q\<lparr>filters := filters q @ [Eq col v]\<rparr>"

definition or_q :: "string \<Rightarrow> 'p query \<Rightarrow> 'p query" where
  "or_q conds q = q\<lparr>filters := filters q @ [Or conds]\<rparr>"

definition order_q :: "string \<Rightarrow> bool \<Rightarrow> 'p query \<Rightarrow> 'p query" where
  "order_q col ascending q = q\<lparr>ordering := Some (col, ascending)\<rparr>"

definition limit_q :: "int \<Rightarrow> 'p query \<Rightarrow> 'p query" where
  "limit_q n q = q\<lparr>limited := Some n\<rparr>"

definition range_q :: "int \<Rightarrow> int \<Rightarrow> 'p query \<Rightarrow> 'p query" where
  "range_q a b q = q\<lparr>ranged := Some (a, b)\<rparr>"

definition single_q :: "'p query \<Rightarrow> 'p query" where
  "single_q q = q\<lparr>single_row := True\<rparr>"

text \<open>\<open>if (error) throw new Error(`${what}: ${error.message}`); return ...\<close>\<close>

definition settle :: "string \<Rightarrow> ('r option \<Rightarrow> int option \<Rightarrow> 'a) \<Rightarrow> 'r response \<Rightarrow> thrown + 'a" where
  "settle what ret r =
     (case error r of
        Some e \<Rightarrow> Inl (Error (what @ '': '' @ message e))
      | None \<Rightarrow> Inr (ret (data r) (count r)))"

text \<open>\<open>data || []\<close>\<close>

definition or_empty :: "'a list option \<Rightarrow> 'a list" where
  "or_empty d = (case d of Some rows \<Rightarrow> rows | None \<Rightarrow> [])"

section \<open>services/database.ts: saveClassification and getClassifications\<close>

text \<open>
  Both pass their request to \<open>retryOperation\<close> with the defaults of its signature,
  \<open>retries = 2\<close> and \<open>delay = 1000\<close>; the first invocation is number \<open>0\<close>.
\<close>

definition saveClassification :: "('p, 'r) store \<Rightarrow> 'p \<Rightarrow> ('r option) settled" where
  "saveClassification exec classification =
     retryOperation
       (\<lambda>k. settle ''Failed to save classification'' (\<lambda>d c. d)
          (exec k (single_q (select_q ''*'' False (insert_q [classification] (from_q ''classifications''))))))
       0 2 1000"

datatype sort_column = Created_at | Confidence | Product_name

datatype sort_order = Asc | Desc

record options =
  limit :: "int option"
  offset :: "int option"
  searchTerm :: "string option"
  dualUseOnly :: "bool option"
  sortBy :: "sort_column option"
  sortOrder :: "sort_order option"

text \<open>
  \<open>String.prototype.trim\<close> strips white space and line terminators from both ends. Of
  those, the ones a one-byte character can hold are listed.
\<close>

definition is_space :: "char \<Rightarrow> bool" where
  "is_space c = (c \<in> set [CHR 0x09, CHR 0x0A, CHR 0x0B, CHR 0x0C, CHR 0x0D, CHR 0x20, CHR 0xA0])"

definition trim :: "string \<Rightarrow> string" where
  "trim s = rev (dropWhile is_space (rev (dropWhile is_space s)))"

text \<open>The regular expression \<open>/^\d{4}(\.\d{2}(\.\d{2})?)?$/\<close>, read left to right.\<close>

definition is_digit :: "char \<Rightarrow> bool" where
  "is_digit c = (c \<in> set ''0123456789'')"

fun dot_group :: "string \<Rightarrow> string option" where
  "dot_group (a # b # c # rest) =
     (if a = CHR ''.'' \<and> is_digit b \<and> is_digit c then Some rest else None)"
| "dot_group _ = None"

fun hs_shape :: "string \<Rightarrow> bool" where
  "hs_shape (a # b # c # d # rest) =
     (is_digit a \<and> is_digit b \<and> is_digit c \<and> is_digit d \<and>
      (rest = [] \<or>
       (case dot_group rest of
          None \<Rightarrow> False
        | Some rest' \<Rightarrow> rest' = [] \<or> dot_group rest' = Some [])))"
| "hs_shape _ = False"

definition column_name :: "sort_column \<Rightarrow> string" where
  "column_name c = (case c of Created_at \<Rightarrow> ''created_at'' | Confidence \<Rightarrow> ''confidence''
     | Product_name \<Rightarrow> ''product_name'')"

text \<open>
  The body of the arrow function passed to \<open>retryOperation\<close>, up to the \<open>await\<close>: the
  request built from the options. A JavaScript condition holds of a string when it is
  defined and not empty, of a number when it is defined and not zero.
\<close>

definition search_filter :: "options option \<Rightarrow> 'p query \<Rightarrow> 'p query" where
  "search_filter opts q =
     (case Option.bind opts searchTerm of
        None \<Rightarrow> q
      | Some raw \<Rightarrow>
          if raw = [] then q
          else (let term = trim raw in
            if hs_shape term then ilike_q ''hs_code'' (''%'' @ term @ ''%'') q
            else or_q (''product_name.ilike.%'' @ term @ ''%,customer_name.ilike.%'' @ term
                        @ ''%,hs_code.ilike.%'' @ term @ ''%'') q))"

definition dual_use_filter :: "options option \<Rightarrow> 'p query \<Rightarrow> 'p query" where
  "dual_use_filter opts q =
     (if Option.bind opts dualUseOnly = Some True then eq_q ''is_dual_use'' (PgBool True) q else q)"

definition sorting :: "options option \<Rightarrow> 'p query \<Rightarrow> 'p query" where
  "sorting opts q =
     (let by = (case Option.bind opts sortBy of Some c \<Rightarrow> c | None \<Rightarrow> Created_at);
          ord = (case Option.bind opts sortOrder of Some d \<Rightarrow> d | None \<Rightarrow> Desc)
      in order_q (column_name by) (ord = Asc) q)"

definition pagination :: "options option \<Rightarrow> 'p query \<Rightarrow> 'p query" where
  "pagination opts q =
     (let q1 = (case Option.bind opts limit of
                  None \<Rightarrow> q
                | Some n \<Rightarrow> if n \<noteq> 0 then limit_q n q else q)
      in case Option.bind opts offset of
           None \<Rightarrow> q1
         | Some off \<Rightarrow>
             if off \<noteq> 0
             then range_q off
                    (off + (case Option.bind opts limit of
                              None \<Rightarrow> 50
                            | Some n \<Rightarrow> if n \<noteq> 0 then n else 50) - 1) q1
             else q1)"

definition classifications_query :: "options option \<Rightarrow> 'p query" where
  "classifications_query opts =
     pagination opts (sorting opts (dual_use_filter opts (search_filter opts
       (select_q ''*'' True (from_q ''classifications'')))))"

record 'r page =
  rows :: "'r list"
  total :: int

definition getClassifications :: "('p, 'r list) store \<Rightarrow> options option \<Rightarrow> ('r page) settled" where
  "getClassifications exec opts =
     retryOperation
       (\<lambda>k. settle ''Failed to fetch classifications''
          (\<lambda>d c. \<lparr>rows = or_empty d, total = (case c of Some n \<Rightarrow> n | None \<Rightarrow> 0)\<rparr>)
          (exec k (classifications_query opts)))
       0 2 1000"

section \<open>services/database.ts: getStatistics\<close>

text \<open>
  A row of the projection \<open>confidence, is_dual_use, chapter\<close>. The column
  \<open>is_dual_use\<close> has a default and no \<open>NOT NULL\<close>, so it may be null (\<open>None\<close>).
  The field \<open>chapter\<close> is named \<open>chapter_label\<close> here.
\<close>

record stat_row =
  confidence :: int
  is_dual_use :: "bool option"
  chapter_label :: string

text \<open>
  The value of \<open>acc[chapter]\<close>, which becomes the \<open>count\<close> of an entry: a number, or a
  string once a chapter bucket has met a member that the accumulator inherits.
\<close>

datatype cell = Count nat | Text string

record statistics =
  totalClassifications :: nat
  dualUseCount :: nat
  averageConfidence :: int
  topChapters :: "(string \<times> cell) list"

text \<open>\<open>s.chapter.split(' - ')[0]\<close>: the text before the first separator, all of it when
  there is none.\<close>

fun split_head :: "string \<Rightarrow> string" where
  "split_head [] = []"
| "split_head (c # cs) = (if prefix '' - '' (c # cs) then [] else c # split_head cs)"

text \<open>
  The accumulator is the object literal \<open>{}\<close>, so a name that is not among its own
  properties is looked up in \<open>Object.prototype\<close>. Its members are functions, but for the
  accessor \<open>__proto__\<close>. Under \<open>+ 1\<close> a function turns into its source text; the text
  of a built-in function is the engine's (here V8's).
\<close>

definition Object_prototype_functions :: "(string \<times> string) list" where
  "Object_prototype_functions =
     [(''constructor'', ''Object''), (''__defineGetter__'', ''__defineGetter__''),
      (''__defineSetter__'', ''__defineSetter__''), (''hasOwnProperty'', ''hasOwnProperty''),
      (''__lookupGetter__'', ''__lookupGetter__''), (''__lookupSetter__'', ''__lookupSetter__''),
      (''isPrototypeOf'', ''isPrototypeOf''), (''propertyIsEnumerable'', ''propertyIsEnumerable''),
      (''toString'', ''toString''), (''valueOf'', ''valueOf''),
      (''toLocaleString'', ''toLocaleString'')]"

definition native_text :: "string \<Rightarrow> string" where
  "native_text name = ''function '' @ name @ ''() { [native code] }''"

text \<open>\<open>(v || 0) + 1\<close> for the value \<open>v\<close> of an own property.\<close>

definition next_cell :: "cell \<Rightarrow> cell" where
  "next_cell v =
     (case v of
        Count n \<Rightarrow> Count (n + 1)
      | Text t \<Rightarrow> if t = [] then Count 1 else Text (t @ ''1''))"

text \<open>
  \<open>acc[chapter] = (acc[chapter] || 0) + 1\<close> on the own properties of \<open>acc\<close>, kept in
  the order they were created in. For a new name: \<open>__proto__\<close> reads the prototype
  object, and its setter ignores the string that is assigned, so nothing is stored; the
  name of an inherited function stores that function's text followed by \<open>1\<close>; any other
  name reads \<open>undefined\<close> and stores \<open>1\<close>.
\<close>

fun bump :: "string \<Rightarrow> (string \<times> cell) list \<Rightarrow> (string \<times> cell) list" where
  "bump k [] =
     (if k = ''__proto__'' then []
      else (case map_of Object_prototype_functions k of
              None \<Rightarrow> [(k, Count 1)]
            | Some name \<Rightarrow> [(k, Text (native_text name @ ''1''))]))"
| "bump k ((k', v) # rest) = (if k = k' then (k', next_cell v) # rest else (k', v) # bump k rest)"

definition chapterCounts :: "stat_row list \<Rightarrow> (string \<times> cell) list" where
  "chapterCounts stats = foldl (\<lambda>acc s. bump (split_head (chapter_label s)) acc) [] stats"

text \<open>
  \<open>Object.entries\<close> lists the keys that are array indices (canonical decimal numerals
  below \<open>2^32 - 1\<close>, such as \<open>"84"\<close> but not \<open>"08"\<close>) first, in ascending numeric
  order, and then the other keys in the order they were created in.
\<close>

definition digit_value :: "char \<Rightarrow> int" where
  "digit_value c = of_char c - 48"

definition numeral_value :: "string \<Rightarrow> int" where
  "numeral_value k = foldl (\<lambda>n c. 10 * n + digit_value c) 0 k"

definition is_array_index :: "string \<Rightarrow> bool" where
  "is_array_index k =
     (case k of
        [] \<Rightarrow> False
      | c # cs \<Rightarrow> list_all is_digit k \<and> (c \<noteq> CHR ''0'' \<or> cs = []) \<and> numeral_value k < 2 ^ 32 - 1)"

definition Object_entries :: "(string \<times> cell) list \<Rightarrow> (string \<times> cell) list" where
  "Object_entries acc =
     sort_key (\<lambda>(k, v). numeral_value k) (filter (\<lambda>(k, v). is_array_index k) acc)
     @ filter (\<lambda>(k, v). \<not> is_array_index k) acc"

text \<open>
  The comparison \<open>(a, b) => b.count - a.count\<close>. A count that is a string is the text of
  a function followed by \<open>1\<close>s and converts to \<open>NaN\<close> (\<open>None\<close>); \<open>sort\<close> reads
  a \<open>NaN\<close> result as \<open>0\<close>.
\<close>

definition to_number :: "cell \<Rightarrow> int option" where
  "to_number v = (case v of Count n \<Rightarrow> Some (int n) | Text t \<Rightarrow> None)"

definition compare_counts :: "string \<times> cell \<Rightarrow> string \<times> cell \<Rightarrow> int" where
  "compare_counts a b =
     (case (to_number (snd b), to_number (snd a)) of
        (Some x, Some y) \<Rightarrow> x - y
      | _ \<Rightarrow> 0)"

text \<open>
  \<open>Array.prototype.sort\<close> is stable. It is modelled as the insertion sort that puts each
  element in front of the first one the comparison places after it. Every stable sort
  agrees with it when the comparison is consistent, as it is when all counts are numbers;
  with a string among different numbers the order is the engine's choice.
\<close>

fun insert_after :: "('a \<Rightarrow> 'a \<Rightarrow> int) \<Rightarrow> 'a \<Rightarrow> 'a list \<Rightarrow> 'a list" where
  "insert_after cmp x [] = [x]"
| "insert_after cmp x (y # ys) = (if cmp y x > 0 then x # y # ys else y # insert_after cmp x ys)"

definition sort_with :: "('a \<Rightarrow> 'a \<Rightarrow> int) \<Rightarrow> 'a list \<Rightarrow> 'a list" where
  "sort_with cmp xs = foldl (\<lambda>acc x. insert_after cmp x acc) [] xs"

text \<open>\<open>Math.round\<close>: the nearest integer, a half rounded up.\<close>

definition Math_round :: "rat \<Rightarrow> int" where
  "Math_round x = \<lfloor>x + 1 / 2\<rfloor>"

text \<open>
  Lines 218 to 241. The mean is computed on the rationals (double precision agrees on sums
  below \<open>2^53\<close>).
\<close>

definition computeStatistics :: "stat_row list \<Rightarrow> statistics" where
  "computeStatistics stats =
     \<lparr>totalClassifications = length stats,
      dualUseCount = length (filter (\<lambda>s. is_dual_use s = Some True) stats),
      averageConfidence =
        (if length stats > 0
         then Math_round (of_int (foldl (\<lambda>sum s. sum + confidence s) 0 stats) / of_nat (length stats))
         else 0),
      topChapters = take 5 (sort_with compare_counts (Object_entries (chapterCounts stats)))\<rparr>"

text \<open>
  The store's answer is read without \<open>retryOperation\<close>. Were \<open>data\<close> null with no
  error reported, \<open>stats.length\<close> would throw.
\<close>

definition getStatistics :: "('p, stat_row list) store \<Rightarrow> thrown + statistics" where
  "getStatistics exec =
     (let r = exec 0 (select_q ''confidence, is_dual_use, chapter'' False (from_q ''classifications''))
      in case error r of
           Some e \<Rightarrow> Inl (Error (''Failed to fetch statistics: '' @ message e))
         | None \<Rightarrow>
             (case data r of
                None \<Rightarrow> Inl (null_property_error ''length'')
              | Some stats \<Rightarrow> Inr (computeStatistics stats)))"

text \<open>How many records fall into a chapter bucket: the frequency the ranking is by.\<close>

definition occurrences :: "string \<Rightarrow> stat_row list \<Rightarrow> nat" where
  "occurrences c stats = length (filter (\<lambda>s. split_head (chapter_label s) = c) stats)"

text \<open>No record's chapter bucket has the name of a member of \<open>Object.prototype\<close>.\<close>

definition own_buckets :: "stat_row list \<Rightarrow> bool" where
  "own_buckets stats =
     list_all (\<lambda>s. split_head (chapter_label s) \<notin> set (''__proto__'' # map fst Object_prototype_functions))
       stats"

text \<open>The number in a count.\<close>

definition number_of :: "string \<times> cell \<Rightarrow> nat" where
  "number_of e = (case snd e of Count n \<Rightarrow> n | Text t \<Rightarrow> 0)"

text \<open>The three records of the specification's example.\<close>

definition example_rows :: "stat_row list" where
  "example_rows =
     [\<lparr>confidence = 80, is_dual_use = Some False, chapter_label = ''84 - Machines''\<rparr>,
      \<lparr>confidence = 90, is_dual_use = Some True, chapter_label = ''84 - Machines''\<rparr>,
      \<lparr>confidence = 100, is_dual_use = Some False, chapter_label = ''85 - Electrical''\<rparr>]"

text \<open>
  Two record sets with a chapter label that collides with a member of \<open>Object.prototype\<close>.
\<close>

definition constructor_rows :: "stat_row list" where
  "constructor_rows =
     [\<lparr>confidence = 80, is_dual_use = Some False, chapter_label = ''84 - Machines''\<rparr>,
      \<lparr>confidence = 70, is_dual_use = Some False, chapter_label = ''constructor - Builders''\<rparr>]"

definition proto_rows :: "stat_row list" where
  "proto_rows = [\<lparr>confidence = 70, is_dual_use = Some False, chapter_label = ''__proto__ - Objects''\<rparr>]"

section \<open>services/database.ts: the convenience queries\<close>

text \<open>Each issues one request (attempt \<open>0\<close>) and is not passed to \<open>retryOperation\<close>.\<close>

definition findSimilarProducts :: "('p, 'r list) store \<Rightarrow> string \<Rightarrow> int \<Rightarrow> thrown + 'r list" where
  "findSimilarProducts exec productName limit' =
     (let r = exec 0 (order_q ''created_at'' False (limit_q limit'
                (ilike_q ''product_name'' (''%'' @ productName @ ''%'')
                  (select_q ''*'' False (from_q ''classifications'')))))
      in case error r of Some e \<Rightarrow> Inr [] | None \<Rightarrow> Inr (or_empty (data r)))"

definition getClassificationsByHSCode :: "('p, 'r list) store \<Rightarrow> string \<Rightarrow> thrown + 'r list" where
  "getClassificationsByHSCode exec hsCode =
     settle ''Failed to fetch classifications by HS code'' (\<lambda>d c. or_empty d)
       (exec 0 (order_q ''created_at'' False (eq_q ''hs_code'' (PgText hsCode)
          (select_q ''*'' False (from_q ''classifications'')))))"

definition getClassificationsByCustomer :: "('p, 'r list) store \<Rightarrow> string \<Rightarrow> thrown + 'r list" where
  "getClassificationsByCustomer exec customerName =
     settle ''Failed to fetch classifications by customer'' (\<lambda>d c. or_empty d)
       (exec 0 (order_q ''created_at'' False (eq_q ''customer_name'' (PgText customerName)
          (select_q ''*'' False (from_q ''classifications'')))))"

definition getDualUseClassifications :: "('p, 'r list) store \<Rightarrow> thrown + 'r list" where
  "getDualUseClassifications exec =
     settle ''Failed to fetch dual-use classifications'' (\<lambda>d c. or_empty d)
       (exec 0 (order_q ''created_at'' False (eq_q ''is_dual_use'' (PgBool True)
          (select_q ''*'' False (from_q ''classifications'')))))"

definition searchProductsByName :: "('p, 'r list) store \<Rightarrow> string \<Rightarrow> int \<Rightarrow> thrown + 'r list" where
  "searchProductsByName exec productName limit' =
     (let r = exec 0 (order_q ''created_at'' False (limit_q limit'
                (ilike_q ''product_name'' (''%'' @ productName @ ''%'')
                  (select_q ''*'' False (from_q ''classifications'')))))
      in case error r of Some e \<Rightarrow> Inr [] | None \<Rightarrow> Inr (or_empty (data r)))"

definition searchByHSCodePattern :: "('p, 'r list) store \<Rightarrow> string \<Rightarrow> thrown + 'r list" where
  "searchByHSCodePattern exec hsCodePattern =
     (let r = exec 0 (order_q ''created_at'' False
                (ilike_q ''hs_code'' (hsCodePattern @ ''%'')
                  (select_q ''*'' False (from_q ''classifications''))))
      in case error r of Some e \<Rightarrow> Inr [] | None \<Rightarrow> Inr (or_empty (data r)))"

definition searchCustomersByPattern :: "('p, 'r list) store \<Rightarrow> string \<Rightarrow> thrown + 'r list" where
  "searchCustomersByPattern exec customerPattern =
     (let r = exec 0 (order_q ''created_at'' False
                (ilike_q ''customer_name'' (''%'' @ customerPattern @ ''%'')
                  (select_q ''*'' False (from_q ''classifications''))))
      in case error r of Some e \<Rightarrow> Inr [] | None \<Rightarrow> Inr (or_empty (data r)))"

text \<open>
  Two stores for the examples: one that fails every request with the given message, and one
  whose first request fails to fetch and whose later requests return two rows.
\<close>

definition failing :: "string \<Rightarrow> (unit, nat list) store" where
  "failing msg = (\<lambda>k q. \<lparr>data = None, error = Some \<lparr>message = msg, code = ''42501''\<rparr>, count = None\<rparr>)"

definition flaky :: "(unit, nat list) store" where
  "flaky = (\<lambda>k q.
     if k = 0
     then \<lparr>data = None, error = Some \<lparr>message = ''TypeError: Failed to fetch'', code = []\<rparr>, count = None\<rparr>
     else \<lparr>data = Some [1, 2], error = None, count = Some 2\<rparr>)"

section \<open>services/openai.ts: values parsed from the completion\<close>

text \<open>
  What \<open>JSON.parse\<close> returns. An object is kept as the list of its own properties in
  creation order; \<open>map_of\<close> reads a property, and a name that is not there reads as
  \<open>undefined\<close> (\<open>None\<close>). Numbers are kept exact.
\<close>

datatype json = JNull | JBool bool | JNum rat | JStr string | JArr "json list"
  | JObj "(string \<times> json) list"

text \<open>
  Reading one of the properties \<open>hsCode\<close>, \<open>chapter\<close>, \<open>description\<close>,
  \<open>confidence\<close>, \<open>isDualUse\<close> or \<open>reasoning\<close>: no primitive, array or
  prototype has a member with one of these names. Reading a property of \<open>null\<close>
  throws.
\<close>

fun get_prop :: "json \<Rightarrow> string \<Rightarrow> thrown + json option" where
  "get_prop JNull k = Inl (null_property_error k)"
| "get_prop (JObj props) k = Inr (map_of props k)"
| "get_prop _ k = Inr None"

text \<open>The condition a value is in \<open>if (v)\<close> and \<open>!v\<close>; \<open>None\<close> is \<open>undefined\<close>.\<close>

fun truthy :: "json option \<Rightarrow> bool" where
  "truthy None = False"
| "truthy (Some JNull) = False"
| "truthy (Some (JBool b)) = b"
| "truthy (Some (JNum n)) = (n \<noteq> 0)"
| "truthy (Some (JStr s)) = (s \<noteq> [])"
| "truthy (Some (JArr xs)) = True"
| "truthy (Some (JObj props)) = True"

section \<open>services/openai.ts: classifyProduct\<close>

text \<open>
  \<open>response.match(/\{[\s\S]*\}/)\<close>: the match starts at the leftmost \<open>{\<close> from which
  it can succeed, and \<open>[\s\S]*\<close> is greedy, so it ends at the last \<open>}\<close>.
  \<open>greedy_close\<close> is \<open>[\s\S]*\}\<close> anchored at the start of its argument.
\<close>

fun greedy_close :: "string \<Rightarrow> string option" where
  "greedy_close [] = None"
| "greedy_close (c # cs) =
     (case greedy_close cs of
        Some m \<Rightarrow> Some (c # m)
      | None \<Rightarrow> if c = CHR ''}'' then Some [c] else None)"

fun jsonMatch :: "string \<Rightarrow> string option" where
  "jsonMatch [] = None"
| "jsonMatch (c # cs) =
     (if c = CHR ''{''
      then (case greedy_close cs of Some m \<Rightarrow> Some (c # m) | None \<Rightarrow> jsonMatch cs)
      else jsonMatch cs)"

text \<open>
  The \<open>catch\<close> clause around the whole body:
  \<open>throw new Error(`Classification failed: ${error instanceof Error ? error.message : 'Unknown error'}`)\<close>.
\<close>

definition classification_failed :: "thrown \<Rightarrow> thrown" where
  "classification_failed e =
     Error (''Classification failed: '' @ (case e of Error msg \<Rightarrow> msg | NonError \<Rightarrow> ''Unknown error''))"

text \<open>The three property reads of the validation, left to right.\<close>

definition validate :: "json \<Rightarrow> thrown + json" where
  "validate classification =
     (case get_prop classification ''hsCode'' of
        Inl e \<Rightarrow> Inl e
      | Inr hsCode \<Rightarrow>
          if \<not> truthy hsCode then Inl (Error ''Incomplete classification data from OpenAI'')
          else (case get_prop classification ''chapter'' of
            Inl e \<Rightarrow> Inl e
          | Inr chapter' \<Rightarrow>
              if \<not> truthy chapter' then Inl (Error ''Incomplete classification data from OpenAI'')
              else (case get_prop classification ''description'' of
                Inl e \<Rightarrow> Inl e
              | Inr description \<Rightarrow>
                  if \<not> truthy description
                  then Inl (Error ''Incomplete classification data from OpenAI'')
                  else Inr classification)))"

text \<open>
  The body of the \<open>try\<close> after the awaited call; \<open>content\<close> is
  \<open>completion.choices[0]?.message?.content\<close>, \<open>None\<close> when it is null or undefined.
\<close>

definition extraction :: "(string \<Rightarrow> thrown + json) \<Rightarrow> string option \<Rightarrow> thrown + json" where
  "extraction parse content =
     (case content of
        None \<Rightarrow> Inl (Error ''No response from OpenAI'')
      | Some response \<Rightarrow>
          if response = [] then Inl (Error ''No response from OpenAI'')
          else (case jsonMatch response of
            None \<Rightarrow> Inl (Error ''Invalid JSON response from OpenAI'')
          | Some m \<Rightarrow>
              (case parse m of
                 Inl e \<Rightarrow> Inl e
               | Inr classification \<Rightarrow> validate classification)))"

text \<open>
  \<open>classifyProduct\<close>. The request (prompt, model, token budget, temperature) goes to the
  completion service and nothing of it is read afterwards, so the call is modelled by how it
  settled: \<open>Inl\<close> when \<open>openai.chat.completions.create\<close> rejected (or the
  completion has no \<open>choices\<close> to index), \<open>Inr content\<close> otherwise. \<open>parse\<close> stands for \<open>JSON.parse\<close>. The returned classification is the
  parsed value itself: the type annotation does nothing at run time.
\<close>

definition classifyProduct :: "(string \<Rightarrow> thrown + json) \<Rightarrow> thrown + string option \<Rightarrow> thrown + json" where
  "classifyProduct parse completion =
     (case (case completion of Inl e \<Rightarrow> Inl e | Inr content \<Rightarrow> extraction parse content) of
        Inl e \<Rightarrow> Inl (classification_failed e)
      | Inr classification \<Rightarrow> Inr classification)"

section \<open>services/openai.ts: generateWTOLink\<close>

text \<open>The field \<open>chapter\<close> of the returned object is named \<open>chapter_link\<close> here.\<close>

record wto_links =
  wto :: string
  wcoomic :: string
  chapter_link :: string
  detailed :: string
  search :: string

definition generateWTOLink :: "string \<Rightarrow> wto_links" where
  "generateWTOLink hsCode =
     (let baseCode = take 6 hsCode;
          chapter' = take 2 hsCode
      in \<lparr>wto = ''https://www.wto.org/english/res_e/booksp_e/tariff_profiles_e.htm'',
          wcoomic = ''https://www.wcoomd.org/en/topics/nomenclature/instrument-and-tools/hs-nomenclature-2022-edition/hs-nomenclature-2022-edition.aspx'',
          chapter_link = ''https://www.foreign-trade.com/reference/hscode.cfm?code='' @ chapter',
          detailed = ''https://hts.usitc.gov/current'',
          search = ''https://www.tariffnumber.com/2022/'' @ baseCode\<rparr>)"

section \<open>A model of JSON.parse\<close>

text \<open>
  \<open>JSON.parse\<close> is the engine's. The properties below are proved for every function
  \<open>parse\<close>; the examples run this reading of the JSON grammar. Its limits: a character
  is one byte, so of the \<open>\u\<close> escapes only \<open>\u00XX\<close> are read; numbers are exact
  rationals; the wording of the \<open>SyntaxError\<close> is the engine's. The first argument of
  the three parsing functions bounds the depth of the recursion; \<open>JSON_parse\<close> passes
  one more than the length of the text.
\<close>

definition is_ws :: "char \<Rightarrow> bool" where
  "is_ws c = (c \<in> set [CHR 0x20, CHR 0x09, CHR 0x0A, CHR 0x0D])"

definition skip_ws :: "string \<Rightarrow> string" where
  "skip_ws s = dropWhile is_ws s"

definition escape :: "char \<Rightarrow> char option" where
  "escape e =
     (if e = CHR 0x22 \<or> e = CHR 0x5C \<or> e = CHR ''/'' then Some e
      else if e = CHR ''b'' then Some (CHR 0x08)
      else if e = CHR ''f'' then Some (CHR 0x0C)
      else if e = CHR ''n'' then Some (CHR 0x0A)
      else if e = CHR ''r'' then Some (CHR 0x0D)
      else if e = CHR ''t'' then Some (CHR 0x09)
      else None)"

definition hex_value :: "char \<Rightarrow> nat option" where
  "hex_value c =
     (if c \<in> set ''0123456789'' then Some (of_char c - 48)
      else if c \<in> set ''abcdef'' then Some (of_char c - 87)
      else if c \<in> set ''ABCDEF'' then Some (of_char c - 55)
      else None)"

text \<open>A string after its opening quotation mark: the text and what follows the closing one.\<close>

fun string_body :: "string \<Rightarrow> (string \<times> string) option" where
  "string_body [] = None"
| "string_body (c # cs) =
     (if c = CHR 0x22 then Some ([], cs)
      else if c = CHR 0x5C then
        (case cs of
           [] \<Rightarrow> None
         | e # cs' \<Rightarrow>
             (case escape e of
                Some d \<Rightarrow> map_option (\<lambda>(s, r). (d # s, r)) (string_body cs')
              | None \<Rightarrow>
                  (case cs' of
                     a # b # h # l # cs'' \<Rightarrow>
                       (if e = CHR ''u'' \<and> a = CHR ''0'' \<and> b = CHR ''0'' then
                          (case (hex_value h, hex_value l) of
                             (Some x, Some y) \<Rightarrow>
                               map_option (\<lambda>(s, r). (char_of (16 * x + y) # s, r)) (string_body cs'')
                           | _ \<Rightarrow> None)
                        else None)
                   | _ \<Rightarrow> None)))
      else if (of_char c :: nat) < 32 then None
      else map_option (\<lambda>(s, r). (c # s, r)) (string_body cs))"

definition digits_of :: "string \<Rightarrow> string \<times> string" where
  "digits_of s = (takeWhile is_digit s, dropWhile is_digit s)"

text \<open>\<open>-? (0 | [1-9][0-9]*) (. [0-9]+)? ([eE] [+-]? [0-9]+)?\<close>\<close>

definition number :: "string \<Rightarrow> (rat \<times> string) option" where
  "number s =
     (let (neg, s1) = (case s of
                         [] \<Rightarrow> (False, s)
                       | c # cs \<Rightarrow> if c = CHR ''-'' then (True, cs) else (False, s));
          (ip, s2) = digits_of s1
      in if ip = [] \<or> (length ip > 1 \<and> take 1 ip = ''0'') then None
         else
           (let (fp, s3) = (case s2 of
                              [] \<Rightarrow> ([], s2)
                            | c # cs \<Rightarrow> if c = CHR ''.'' then digits_of cs else ([], s2))
            in if take 1 s2 = ''.'' \<and> fp = [] then None
               else
                 (let mant = (of_int (numeral_value (ip @ fp)) :: rat) / 10 ^ length fp;
                      signed = (if neg then - mant else mant)
                  in (case s3 of
                        [] \<Rightarrow> Some (signed, s3)
                      | c # cs \<Rightarrow>
                          if c = CHR ''e'' \<or> c = CHR ''E'' then
                            (let (eneg, s4) =
                                   (case cs of
                                      [] \<Rightarrow> (False, cs)
                                    | d # ds \<Rightarrow>
                                        if d = CHR ''-'' then (True, ds)
                                        else if d = CHR ''+'' then (False, ds)
                                        else (False, cs));
                                 (ep, s5) = digits_of s4
                             in if ep = [] then None
                                else Some (if eneg then signed / 10 ^ nat (numeral_value ep)
                                           else signed * 10 ^ nat (numeral_value ep), s5))
                          else Some (signed, s3)))))"

text \<open>A repeated name keeps its first position and takes the last value.\<close>

fun set_prop :: "string \<Rightarrow> json \<Rightarrow> (string \<times> json) list \<Rightarrow> (string \<times> json) list" where
  "set_prop k v [] = [(k, v)]"
| "set_prop k v ((k', v') # rest) = (if k = k' then (k', v) # rest else (k', v') # set_prop k v rest)"

fun parse_value :: "nat \<Rightarrow> string \<Rightarrow> (json \<times> string) option"
  and parse_elements :: "nat \<Rightarrow> string \<Rightarrow> (json list \<times> string) option"
  and parse_members :: "nat \<Rightarrow> string \<Rightarrow> ((string \<times> json) list \<times> string) option" where
  "parse_value 0 s = None"
| "parse_value (Suc n) s =
     (case skip_ws s of
        [] \<Rightarrow> None
      | c # cs \<Rightarrow>
          if c = CHR ''{'' then
            (if take 1 (skip_ws cs) = ''}'' then Some (JObj [], drop 1 (skip_ws cs))
             else map_option (\<lambda>(ms, r). (JObj (foldl (\<lambda>acc (k, v). set_prop k v acc) [] ms), r))
                    (parse_members n cs))
          else if c = CHR ''['' then
            (if take 1 (skip_ws cs) = '']'' then Some (JArr [], drop 1 (skip_ws cs))
             else map_option (\<lambda>(vs, r). (JArr vs, r)) (parse_elements n cs))
          else if c = CHR 0x22 then map_option (\<lambda>(str, r). (JStr str, r)) (string_body cs)
          else if prefix ''true'' (c # cs) then Some (JBool True, drop 4 (c # cs))
          else if prefix ''false'' (c # cs) then Some (JBool False, drop 5 (c # cs))
          else if prefix ''null'' (c # cs) then Some (JNull, drop 4 (c # cs))
          else map_option (\<lambda>(x, r). (JNum x, r)) (number (c # cs)))"
| "parse_elements 0 s = None"
| "parse_elements (Suc n) s =
     (case parse_value n s of
        None \<Rightarrow> None
      | Some (v, r) \<Rightarrow>
          (case skip_ws r of
             [] \<Rightarrow> None
           | c # r' \<Rightarrow>
               if c = CHR '','' then map_option (\<lambda>(vs, r''). (v # vs, r'')) (parse_elements n r')
               else if c = CHR '']'' then Some ([v], r')
               else None))"
| "parse_members 0 s = None"
| "parse_members (Suc n) s =
     (case skip_ws s of
        [] \<Rightarrow> None
      | q # cs \<Rightarrow>
          if q \<noteq> CHR 0x22 then None
          else (case string_body cs of
            None \<Rightarrow> None
          | Some (k, r) \<Rightarrow>
              (case skip_ws r of
                 [] \<Rightarrow> None
               | c # r1 \<Rightarrow>
                   if c \<noteq> CHR '':'' then None
                   else (case parse_value n r1 of
                     None \<Rightarrow> None
                   | Some (v, r2) \<Rightarrow>
                       (case skip_ws r2 of
                          [] \<Rightarrow> None
                        | d # r3 \<Rightarrow>
                            if d = CHR '','' then map_option (\<lambda>(ms, r4). ((k, v) # ms, r4)) (parse_members n r3)
                            else if d = CHR ''}'' then Some ([(k, v)], r3)
                            else None)))))"

definition syntax_error :: thrown where
  "syntax_error = Error ''Unexpected token in JSON''"

definition JSON_parse :: "string \<Rightarrow> thrown + json" where
  "JSON_parse s =
     (case parse_value (Suc (length s)) s of
        None \<Rightarrow> Inl syntax_error
      | Some (v, r) \<Rightarrow> if skip_ws r = [] then Inr v else Inl syntax_error)"

text \<open>
  A completion as the prompt asks for it:
  \<open>{"hsCode": "8471.30.01", "chapter": "84 - Machines", "description": "Laptops",
  "confidence": 85, "isDualUse": false}\<close>.
\<close>

definition completion_inner :: string where
  "completion_inner =
     [CHR 0x22] @ ''hsCode'' @ [CHR 0x22] @ '': '' @ [CHR 0x22] @ ''8471.30.01'' @ [CHR 0x22] @ '', ''
     @ [CHR 0x22] @ ''chapter'' @ [CHR 0x22] @ '': '' @ [CHR 0x22] @ ''84 - Machines'' @ [CHR 0x22] @ '', ''
     @ [CHR 0x22] @ ''description'' @ [CHR 0x22] @ '': '' @ [CHR 0x22] @ ''Laptops'' @ [CHR 0x22] @ '', ''
     @ [CHR 0x22] @ ''confidence'' @ [CHR 0x22] @ '': 85, ''
     @ [CHR 0x22] @ ''isDualUse'' @ [CHR 0x22] @ '': false''"

definition completion_text :: string where
  "completion_text = ''{'' @ completion_inner @ ''}''"

definition completion_object :: json where
  "completion_object =
     JObj [(''hsCode'', JStr ''8471.30.01''), (''chapter'', JStr ''84 - Machines''),
           (''description'', JStr ''Laptops''), (''confidence'', JNum 85),
           (''isDualUse'', JBool False)]"

section \<open>App.tsx: handleClassification\<close>

text \<open>
  The objects the handler builds. At run time the fields copied from the classification hold
  whatever was parsed (\<open>None\<close> for \<open>undefined\<close>). Field names carry a prefix, as
  several of them (\<open>id\<close>, \<open>chapter\<close>, \<open>confidence\<close>) are taken.
\<close>

record ClassificationResult =
  res_id :: string
  res_productName :: string
  res_hsCode :: "json option"
  res_chapter :: "json option"
  res_description :: "json option"
  res_confidence :: "json option"
  res_wtoLink :: string
  res_isDualUse :: "json option"
  res_timestamp :: int
  res_customerName :: "string option"
  res_reasoning :: "json option"
  res_links :: wto_links

record ClassificationInsert =
  ins_product_name :: string
  ins_customer_name :: "string option"
  ins_hs_code :: "json option"
  ins_chapter :: "json option"
  ins_description :: "json option"
  ins_confidence :: "json option"
  ins_is_dual_use :: "json option"
  ins_reasoning :: "json option"
  ins_wto_links :: wto_links

text \<open>The state the handler touches; \<open>ui_error\<close> is the state variable \<open>error\<close>.\<close>

record app_state =
  results :: "ClassificationResult list"
  isLoading :: bool
  ui_error :: "string option"

text \<open>\<open>Date.now().toString()\<close>: the decimal numeral of the clock value.\<close>

function decimal :: "int \<Rightarrow> string" where
  "decimal n =
     (if n < 0 then CHR ''-'' # decimal (- n)
      else if n < 10 then [char_of (48 + n)]
      else decimal (n div 10) @ [char_of (48 + n mod 10)])"
  by pat_completeness auto
termination
  by (relation "measure (\<lambda>n. if n < 0 then nat (- n) + 1 else nat n)") auto

declare decimal.simps [simp del]

text \<open>
  \<open>generateWTOLink(classification.hsCode)\<close> on what was parsed: only a string has
  \<open>substring\<close>; on anything else the call throws a \<open>TypeError\<close> (the engine's wording).
\<close>

definition call_generateWTOLink :: "json option \<Rightarrow> thrown + wto_links" where
  "call_generateWTOLink hsCode =
     (case hsCode of
        Some (JStr s) \<Rightarrow> Inr (generateWTOLink s)
      | _ \<Rightarrow> Inl (Error ''hsCode.substring is not a function''))"

text \<open>A property of a classification that is known not to be \<open>null\<close>.\<close>

definition field :: "json \<Rightarrow> string \<Rightarrow> json option" where
  "field classification k = (case get_prop classification k of Inr v \<Rightarrow> v | Inl e \<Rightarrow> None)"

text \<open>\<open>setError(err instanceof Error ? err.message : 'Classification failed')\<close>\<close>

definition shown_message :: "thrown \<Rightarrow> string" where
  "shown_message e = (case e of Error msg \<Rightarrow> msg | NonError \<Rightarrow> ''Classification failed'')"

text \<open>
  One submission. Besides the new state the model returns how the call of
  \<open>DatabaseService.saveClassification\<close> settled, \<open>None\<close> when the handler did not get
  to it. \<open>now\<close> and \<open>stamp\<close> are the two readings of the clock.
\<close>

record 'r submission =
  state :: app_state
  save :: "('r option) settled option"

definition handleClassification ::
  "(string \<Rightarrow> thrown + json) \<Rightarrow> (thrown + string option) \<Rightarrow> (ClassificationInsert, 'r) store
     \<Rightarrow> int \<Rightarrow> int \<Rightarrow> string \<Rightarrow> string option \<Rightarrow> app_state \<Rightarrow> 'r submission" where
  "handleClassification parse completion exec now stamp productName customerName s =
     (let s1 = s\<lparr>isLoading := True, ui_error := None\<rparr>;
          failed = (\<lambda>e. \<lparr>state = s1\<lparr>ui_error := Some (shown_message e), isLoading := False\<rparr>,
                          save = None\<rparr>)
      in case classifyProduct parse completion of
           Inl e \<Rightarrow> failed e
         | Inr classification \<Rightarrow>
             (case get_prop classification ''hsCode'' of
                Inl e \<Rightarrow> failed e
              | Inr hsCode \<Rightarrow>
                  (case call_generateWTOLink hsCode of
                     Inl e \<Rightarrow> failed e
                   | Inr links \<Rightarrow>
                       (let result =
                              \<lparr>res_id = decimal now,
                               res_productName = productName,
                               res_hsCode = hsCode,
                               res_chapter = field classification ''chapter'',
                               res_description = field classification ''description'',
                               res_confidence = field classification ''confidence'',
                               res_wtoLink = search links,
                               res_isDualUse = field classification ''isDualUse'',
                               res_timestamp = stamp,
                               res_customerName = customerName,
                               res_reasoning = field classification ''reasoning'',
                               res_links = links\<rparr>;
                            dbRecord =
                              \<lparr>ins_product_name = productName,
                               ins_customer_name = customerName,
                               ins_hs_code = hsCode,
                               ins_chapter = field classification ''chapter'',
                               ins_description = field classification ''description'',
                               ins_confidence = field classification ''confidence'',
                               ins_is_dual_use = field classification ''isDualUse'',
                               ins_reasoning = field classification ''reasoning'',
                               ins_wto_links = links\<rparr>;
                            saved = saveClassification exec dbRecord
                        in \<lparr>state = s1\<lparr>results := result # results s1, isLoading := False\<rparr>,
                            save = Some saved\<rparr>))))"

text \<open>A store on which every request fails to fetch.\<close>

definition offline :: "(ClassificationInsert, unit) store" where
  "offline = (\<lambda>k q. \<lparr>data = None,
       error = Some \<lparr>message = ''TypeError: Failed to fetch'', code = []\<rparr>, count = None\<rparr>)"

section \<open>Notions the properties are stated with\<close>

text \<open>A required field that is missing from the parsed object or is the empty string.\<close>

definition absent_or_empty :: "json option \<Rightarrow> bool" where
  "absent_or_empty v = (v = None \<or> v = Some (JStr []))"

text \<open>
  A completion whose object has all three required fields, none of them an empty string,
  with the number \<open>0\<close> as \<open>hsCode\<close>:
  \<open>{"hsCode": 0, "chapter": "84 - Machines", "description": "Laptops"}\<close>.
\<close>

definition zero_code_text :: string where
  "zero_code_text =
     [CHR ''{'', CHR 0x22] @ ''hsCode'' @ [CHR 0x22] @ '': 0, ''
     @ [CHR 0x22] @ ''chapter'' @ [CHR 0x22] @ '': '' @ [CHR 0x22] @ ''84 - Machines'' @ [CHR 0x22] @ '', ''
     @ [CHR 0x22] @ ''description'' @ [CHR 0x22] @ '': '' @ [CHR 0x22] @ ''Laptops'' @ [CHR 0x22] @ ''}''"

definition zero_code_object :: json where
  "zero_code_object =
     JObj [(''hsCode'', JNum 0), (''chapter'', JStr ''84 - Machines''),
           (''description'', JStr ''Laptops'')]"

text \<open>A completion whose object has an empty \<open>hsCode\<close> and no \<open>description\<close>.\<close>

definition incomplete_text :: string where
  "incomplete_text = ''Result: {'' @ [CHR 0x22] @ ''hsCode'' @ [CHR 0x22] @ '': '' @ [CHR 0x22, CHR 0x22]
     @ '', '' @ [CHR 0x22] @ ''chapter'' @ [CHR 0x22] @ '': '' @ [CHR 0x22] @ ''84 - Machines'' @ [CHR 0x22] @ ''}''"

chapter \<open>Verified properties\<close>

section \<open>The retry wrapper\<close>

lemma retry_success: "operation k = Inr v \<Longrightarrow>
    retryOperation operation k retries delay = \<lparr>outcome = Inr v, waits = []\<rparr>"
  by (simp add: retryOperation.simps)

lemma retry_give_up: "operation k = Inl e \<Longrightarrow> \<not> (retries > 0 \<and> is_fetch_failure e) \<Longrightarrow>
    retryOperation operation k retries delay = \<lparr>outcome = Inl e, waits = []\<rparr>"
  by (subst retryOperation.simps) auto

lemma retry_again: "operation k = Inl e \<Longrightarrow> retries > 0 \<Longrightarrow> is_fetch_failure e \<Longrightarrow>
    retryOperation operation k retries delay =
      (let r = retryOperation operation (Suc k) (retries - 1) (delay * (3 / 2))
       in r\<lparr>waits := delay # waits r\<rparr>)"
  by (subst retryOperation.simps) simp

text \<open>
  C4. With the default budget of two retries, started with delay \<open>base\<close>:
  (a) an operation that rejects twice with a fetch failure and then resolves with \<open>v\<close>
  makes the call resolve with \<open>v\<close> after exactly two retries, which waited \<open>base\<close>
  and \<open>base \<times> 1.5\<close>;
  (b) an operation that rejects with anything that is not a fetch failure makes the call
  reject with that error at once, with no retry;
  (c) an operation that rejects three times, the first two with fetch failures, makes the
  call reject with the last error after the two retries.
\<close>

theorem retryOperation_policy:
  "(operation k = Inl e0 \<and> is_fetch_failure e0 \<and>
    operation (Suc k) = Inl e1 \<and> is_fetch_failure e1 \<and>
    operation (Suc (Suc k)) = Inr v
      \<longrightarrow> retryOperation operation k 2 base
            = \<lparr>outcome = Inr v, waits = [base, base * (3 / 2)]\<rparr>) \<and>
   (operation k = Inl e \<and> \<not> is_fetch_failure e
      \<longrightarrow> retryOperation operation k 2 base = \<lparr>outcome = Inl e, waits = []\<rparr>) \<and>
   (operation k = Inl e0 \<and> is_fetch_failure e0 \<and>
    operation (Suc k) = Inl e1 \<and> is_fetch_failure e1 \<and>
    operation (Suc (Suc k)) = Inl e2
      \<longrightarrow> retryOperation operation k 2 base
            = \<lparr>outcome = Inl e2, waits = [base, base * (3 / 2)]\<rparr>)"
proof (intro conjI impI)
  assume a: "operation k = Inl e0 \<and> is_fetch_failure e0 \<and>
    operation (Suc k) = Inl e1 \<and> is_fetch_failure e1 \<and> operation (Suc (Suc k)) = Inr v"
  have "retryOperation operation (Suc (Suc k)) 0 (base * (3 / 2) * (3 / 2))
          = \<lparr>outcome = Inr v, waits = []\<rparr>"
    using a by (simp add: retry_success)
  then have "retryOperation operation (Suc k) 1 (base * (3 / 2))
          = \<lparr>outcome = Inr v, waits = [base * (3 / 2)]\<rparr>"
    using a retry_again [of operation "Suc k" e1 1 "base * (3 / 2)"] by simp
  then show "retryOperation operation k 2 base
          = \<lparr>outcome = Inr v, waits = [base, base * (3 / 2)]\<rparr>"
    using a retry_again [of operation k e0 2 base] by simp
next
  assume "operation k = Inl e \<and> \<not> is_fetch_failure e"
  then show "retryOperation operation k 2 base = \<lparr>outcome = Inl e, waits = []\<rparr>"
    by (simp add: retry_give_up)
next
  assume a: "operation k = Inl e0 \<and> is_fetch_failure e0 \<and>
    operation (Suc k) = Inl e1 \<and> is_fetch_failure e1 \<and> operation (Suc (Suc k)) = Inl e2"
  have "retryOperation operation (Suc (Suc k)) 0 (base * (3 / 2) * (3 / 2))
          = \<lparr>outcome = Inl e2, waits = []\<rparr>"
    using a by (simp add: retry_give_up)
  then have "retryOperation operation (Suc k) 1 (base * (3 / 2))
          = \<lparr>outcome = Inl e2, waits = [base * (3 / 2)]\<rparr>"
    using a retry_again [of operation "Suc k" e1 1 "base * (3 / 2)"] by simp
  then show "retryOperation operation k 2 base
          = \<lparr>outcome = Inl e2, waits = [base, base * (3 / 2)]\<rparr>"
    using a retry_again [of operation k e0 2 base] by simp
qed

theorem retryOperation_policy_witness:
  "retryOperation (\<lambda>k. if k < 2 then Inl (Error ''TypeError: Failed to fetch'') else Inr (7::nat))
      0 2 1000 = \<lparr>outcome = Inr 7, waits = [1000, 1500]\<rparr> \<and>
   retryOperation (\<lambda>k. (Inl (Error ''permission denied'') :: thrown + nat))
      0 2 1000 = \<lparr>outcome = Inl (Error ''permission denied''), waits = []\<rparr> \<and>
   retryOperation (\<lambda>k. if k < 2 then Inl (Error ''TypeError: Failed to fetch'')
                       else (Inl (Error ''timeout'') :: thrown + nat))
      0 2 1000 = \<lparr>outcome = Inl (Error ''timeout''), waits = [1000, 1500]\<rparr>"
proof -
  let ?f = "Error ''TypeError: Failed to fetch''"
  have f: "is_fetch_failure ?f" and g: "\<not> is_fetch_failure (Error ''permission denied'')"
    by (simp_all add: is_fetch_failure_def)
  show ?thesis
    using f g
      retryOperation_policy [where operation = "\<lambda>k. if k < 2 then Inl ?f else Inr (7::nat)"
        and k = 0 and ?e0.0 = ?f and ?e1.0 = ?f and v = 7 and base = 1000]
      retryOperation_policy [where operation = "\<lambda>k. (Inl (Error ''permission denied'') :: thrown + nat)"
        and k = 0 and e = "Error ''permission denied''" and base = 1000]
      retryOperation_policy [where operation = "\<lambda>k. if k < 2 then Inl ?f
                       else (Inl (Error ''timeout'') :: thrown + nat)"
        and k = 0 and ?e0.0 = ?f and ?e1.0 = ?f and ?e2.0 = "Error ''timeout''" and base = 1000]
    by simp
qed

section \<open>Statistics\<close>

lemma own_key_not_function:
  "k \<notin> set (''__proto__'' # map fst Object_prototype_functions) \<Longrightarrow>
   k \<noteq> ''__proto__'' \<and> map_of Object_prototype_functions k = None"
  by (simp add: map_of_eq_None_iff)

lemma bump_keys:
  assumes "k \<notin> set (''__proto__'' # map fst Object_prototype_functions)"
  shows "map fst (bump k acc) = (if k \<in> fst ` set acc then map fst acc else map fst acc @ [k])"
  using own_key_not_function [OF assms] by (induction acc) (force simp: image_iff)+

lemma map_of_bump:
  assumes "k \<notin> set (''__proto__'' # map fst Object_prototype_functions)"
  shows "map_of (bump k acc) c =
     (if c = k then Some (case map_of acc k of None \<Rightarrow> Count 1 | Some v \<Rightarrow> next_cell v)
      else map_of acc c)"
  using own_key_not_function [OF assms] by (induction acc) auto

lemma chapterCounts_snoc:
  "chapterCounts (xs @ [x]) = bump (split_head (chapter_label x)) (chapterCounts xs)"
  by (simp add: chapterCounts_def)

lemma chapterCounts_inv:
  "own_buckets xs \<Longrightarrow>
   distinct (map fst (chapterCounts xs)) \<and>
   (\<forall>c. map_of (chapterCounts xs) c
          = (if occurrences c xs = 0 then None else Some (Count (occurrences c xs))))"
proof (induction xs rule: rev_induct)
  case Nil
  show ?case by (simp add: chapterCounts_def occurrences_def)
next
  case (snoc x xs)
  from snoc.prems have o: "own_buckets xs"
    and k: "split_head (chapter_label x) \<notin> set (''__proto__'' # map fst Object_prototype_functions)"
    by (simp_all add: own_buckets_def)
  from snoc.IH [OF o] show ?case
    by (simp add: chapterCounts_snoc bump_keys [OF k] map_of_bump [OF k] occurrences_def
        next_cell_def)
qed

lemma in_chapterCounts:
  assumes "own_buckets xs"
  shows "(c, v) \<in> set (chapterCounts xs) \<longleftrightarrow> v = Count (occurrences c xs) \<and> 0 < occurrences c xs"
proof -
  have d: "distinct (map fst (chapterCounts xs))"
    and m: "map_of (chapterCounts xs) c
              = (if occurrences c xs = 0 then None else Some (Count (occurrences c xs)))"
    using chapterCounts_inv [OF assms] by blast+
  have "(c, v) \<in> set (chapterCounts xs) \<longleftrightarrow> map_of (chapterCounts xs) c = Some v"
    using d by simp
  then show ?thesis
    using m by auto
qed

lemma set_Object_entries: "set (Object_entries acc) = set acc"
  by (auto simp: Object_entries_def)

lemma distinct_Object_entries:
  assumes "distinct (map fst acc)"
  shows "distinct (map fst (Object_entries acc))"
proof -
  from assms have d: "distinct acc" and i: "inj_on fst (set acc)"
    by (simp_all add: distinct_map)
  have "distinct (Object_entries acc)"
    using d by (auto simp: Object_entries_def)
  then show ?thesis
    using i by (simp add: distinct_map set_Object_entries)
qed

lemma set_insert_after: "set (insert_after cmp x ys) = insert x (set ys)"
  by (induction ys) auto

lemma distinct_insert_after: "distinct (insert_after cmp x ys) \<longleftrightarrow> x \<notin> set ys \<and> distinct ys"
  by (induction ys) (auto simp: set_insert_after)

lemma set_foldl_insert_after:
  "set (foldl (\<lambda>acc x. insert_after cmp x acc) a xs) = set a \<union> set xs"
  by (induction xs arbitrary: a) (auto simp: set_insert_after)

lemma distinct_foldl_insert_after:
  "distinct a \<Longrightarrow> distinct xs \<Longrightarrow> set a \<inter> set xs = {} \<Longrightarrow>
   distinct (foldl (\<lambda>acc x. insert_after cmp x acc) a xs)"
proof (induction xs arbitrary: a)
  case Nil
  then show ?case by simp
next
  case (Cons x xs)
  have "distinct (insert_after cmp x a)"
    using Cons.prems by (simp add: distinct_insert_after)
  moreover have "set (insert_after cmp x a) \<inter> set xs = {}"
    using Cons.prems by (auto simp: set_insert_after)
  ultimately show ?case
    using Cons.IH [of "insert_after cmp x a"] Cons.prems by simp
qed

lemma set_sort_with: "set (sort_with cmp xs) = set xs"
  by (simp add: sort_with_def set_foldl_insert_after)

lemma distinct_sort_with: "distinct xs \<Longrightarrow> distinct (sort_with cmp xs)"
  by (simp add: sort_with_def distinct_foldl_insert_after)

lemma compare_counts_numbers:
  "snd a = Count m \<Longrightarrow> snd b = Count n \<Longrightarrow> compare_counts a b = int n - int m"
  by (simp add: compare_counts_def to_number_def)

lemma sorted_insert_after:
  assumes "\<forall>e \<in> set (x # ys). snd e = Count (number_of e)"
    and "sorted_wrt (\<lambda>a b. number_of b \<le> number_of a) ys"
  shows "sorted_wrt (\<lambda>a b. number_of b \<le> number_of a) (insert_after compare_counts x ys)"
  using assms
proof (induction ys)
  case Nil
  show ?case by simp
next
  case (Cons y ys)
  have c: "compare_counts y x = int (number_of x) - int (number_of y)"
    using Cons.prems(1) by (simp add: compare_counts_numbers)
  show ?case
  proof (cases "compare_counts y x > 0")
    case True
    then have "number_of y \<le> number_of x" using c by simp
    moreover have "\<forall>z \<in> set ys. number_of z \<le> number_of y"
      using Cons.prems(2) by simp
    ultimately show ?thesis
      using True Cons.prems(2) by fastforce
  next
    case False
    then have "number_of x \<le> number_of y" using c by simp
    moreover have "sorted_wrt (\<lambda>a b. number_of b \<le> number_of a) (insert_after compare_counts x ys)"
      using Cons.IH Cons.prems by simp
    ultimately show ?thesis
      using False Cons.prems(2) by (auto simp: set_insert_after)
  qed
qed

lemma sorted_foldl_insert_after:
  "\<forall>e \<in> set a \<union> set xs. snd e = Count (number_of e) \<Longrightarrow>
   sorted_wrt (\<lambda>a b. number_of b \<le> number_of a) a \<Longrightarrow>
   sorted_wrt (\<lambda>a b. number_of b \<le> number_of a)
     (foldl (\<lambda>acc x. insert_after compare_counts x acc) a xs)"
proof (induction xs arbitrary: a)
  case Nil
  then show ?case by simp
next
  case (Cons x xs)
  have "sorted_wrt (\<lambda>a b. number_of b \<le> number_of a) (insert_after compare_counts x a)"
    using Cons.prems by (intro sorted_insert_after) auto
  moreover have "\<forall>e \<in> set (insert_after compare_counts x a) \<union> set xs. snd e = Count (number_of e)"
    using Cons.prems(1) by (auto simp: set_insert_after)
  ultimately show ?case
    using Cons.IH [of "insert_after compare_counts x a"] by simp
qed

lemma sorted_sort_with:
  "\<forall>e \<in> set xs. snd e = Count (number_of e) \<Longrightarrow>
   sorted_wrt (\<lambda>a b. number_of b \<le> number_of a) (sort_with compare_counts xs)"
  unfolding sort_with_def by (rule sorted_foldl_insert_after) simp_all

lemma foldl_sum: "foldl (\<lambda>sum s. sum + confidence s) a stats = a + sum_list (map confidence stats)"
  by (induction stats arbitrary: a) auto

text \<open>
  Where no chapter bucket has the name of a member of \<open>Object.prototype\<close>, the
  aggregation is what it is meant to be: the number of records; the number of records whose
  dual-use flag is true; the mean confidence rounded to the nearest integer; and at most
  five chapter entries, no chapter twice, each with the number of records in that bucket, in
  descending order of that number, such that a chapter left out (only when five are
  listed) has no more records than any listed one.
\<close>

lemma computeStatistics_own_buckets:
  fixes stats :: "stat_row list"
  defines "st \<equiv> computeStatistics stats"
  assumes own: "own_buckets stats"
  shows "totalClassifications st = length stats"
    and "dualUseCount st = length (filter (\<lambda>s. is_dual_use s = Some True) stats)"
    and "averageConfidence st =
           (if stats = [] then 0
            else Math_round (of_int (sum_list (map confidence stats)) / of_nat (length stats)))"
    and "length (topChapters st) \<le> 5"
    and "distinct (map fst (topChapters st))"
    and "\<forall>(c, v) \<in> set (topChapters st). v = Count (occurrences c stats) \<and> 0 < occurrences c stats"
    and "sorted_wrt (\<lambda>a b. number_of b \<le> number_of a) (topChapters st)"
    and "\<forall>c. 0 < occurrences c stats \<and> c \<notin> fst ` set (topChapters st) \<longrightarrow>
           length (topChapters st) = 5 \<and>
           (\<forall>(c', v') \<in> set (topChapters st). v' = Count (occurrences c' stats) \<and>
              occurrences c stats \<le> occurrences c' stats)"
proof -
  define l where "l = sort_with compare_counts (Object_entries (chapterCounts stats))"
  have tops: "topChapters st = take 5 l"
    by (simp add: st_def computeStatistics_def l_def)
  have set_l: "set l = set (chapterCounts stats)"
    by (simp add: l_def set_sort_with set_Object_entries)
  have el: "\<And>c v. (c, v) \<in> set l \<longleftrightarrow> v = Count (occurrences c stats) \<and> 0 < occurrences c stats"
    by (simp add: set_l in_chapterCounts [OF own])
  have num: "\<forall>e \<in> set l. snd e = Count (number_of e)"
  proof
    fix e assume "e \<in> set l"
    then have "(fst e, snd e) \<in> set l" by simp
    then have "snd e = Count (occurrences (fst e) stats)" by (simp only: el)
    then show "snd e = Count (number_of e)" by (simp add: number_of_def)
  qed
  have "distinct (map fst (Object_entries (chapterCounts stats)))"
    using chapterCounts_inv [OF own] by (simp add: distinct_Object_entries)
  then have "distinct l \<and> inj_on fst (set l)"
    by (simp add: l_def distinct_map distinct_sort_with set_sort_with)
  then have dl: "distinct (map fst l)"
    by (simp add: distinct_map)
  have sl: "sorted_wrt (\<lambda>a b. number_of b \<le> number_of a) l"
    unfolding l_def
  proof (rule sorted_sort_with)
    show "\<forall>e \<in> set (Object_entries (chapterCounts stats)). snd e = Count (number_of e)"
      using num by (simp add: l_def set_sort_with)
  qed
  show "totalClassifications st = length stats"
    and "dualUseCount st = length (filter (\<lambda>s. is_dual_use s = Some True) stats)"
    by (simp_all add: st_def computeStatistics_def)
  show "averageConfidence st =
           (if stats = [] then 0
            else Math_round (of_int (sum_list (map confidence stats)) / of_nat (length stats)))"
    by (simp add: st_def computeStatistics_def foldl_sum)
  show "length (topChapters st) \<le> 5" by (simp add: tops)
  show "distinct (map fst (topChapters st))"
    using distinct_take [OF dl, of 5] by (simp add: tops take_map)
  show "\<forall>(c, v) \<in> set (topChapters st). v = Count (occurrences c stats) \<and> 0 < occurrences c stats"
  proof (clarify)
    fix c v assume "(c, v) \<in> set (topChapters st)"
    then have "(c, v) \<in> set l" unfolding tops by (rule in_set_takeD)
    then show "v = Count (occurrences c stats) \<and> 0 < occurrences c stats"
      by (simp only: el)
  qed
  show "sorted_wrt (\<lambda>a b. number_of b \<le> number_of a) (topChapters st)"
    using sl by (simp add: tops sorted_wrt_take)
  show "\<forall>c. 0 < occurrences c stats \<and> c \<notin> fst ` set (topChapters st) \<longrightarrow>
           length (topChapters st) = 5 \<and>
           (\<forall>(c', v') \<in> set (topChapters st). v' = Count (occurrences c' stats) \<and>
              occurrences c stats \<le> occurrences c' stats)"
  proof (intro allI impI)
    fix c assume a: "0 < occurrences c stats \<and> c \<notin> fst ` set (topChapters st)"
    then have "(c, Count (occurrences c stats)) \<in> set l"
      by (simp add: el)
    moreover have "(c, Count (occurrences c stats)) \<notin> set (take 5 l)"
      using a by (force simp: tops)
    moreover have "set l = set (take 5 l) \<union> set (drop 5 l)"
      by (metis append_take_drop_id set_append)
    ultimately have d: "(c, Count (occurrences c stats)) \<in> set (drop 5 l)" by blast
    then have "drop 5 l \<noteq> []" by auto
    then have len: "length (topChapters st) = 5" by (simp add: tops)
    have "sorted_wrt (\<lambda>a b. number_of b \<le> number_of a) (take 5 l @ drop 5 l)"
      using sl by simp
    then have "\<forall>x \<in> set (take 5 l). \<forall>y \<in> set (drop 5 l). number_of y \<le> number_of x"
      unfolding sorted_wrt_append by blast
    with d have le: "\<forall>x \<in> set (take 5 l). occurrences c stats \<le> number_of x"
      by (force simp: number_of_def)
    have "\<forall>(c', v') \<in> set (topChapters st). v' = Count (occurrences c' stats) \<and>
              occurrences c stats \<le> occurrences c' stats"
    proof (clarify)
      fix c' v' assume i: "(c', v') \<in> set (topChapters st)"
      then have "(c', v') \<in> set l" unfolding tops by (rule in_set_takeD)
      then have v: "v' = Count (occurrences c' stats)" by (simp only: el)
      from i le have "occurrences c stats \<le> number_of (c', v')" by (simp add: tops)
      with v show "v' = Count (occurrences c' stats) \<and> occurrences c stats \<le> occurrences c' stats"
        by (simp add: number_of_def)
    qed
    with len show "length (topChapters st) = 5 \<and>
           (\<forall>(c', v') \<in> set (topChapters st). v' = Count (occurrences c' stats) \<and>
              occurrences c stats \<le> occurrences c' stats)"
      by simp
  qed
qed

text \<open>
  C8. On the three example records \<open>getStatistics\<close> resolves with \<open>3\<close>, \<open>1\<close>,
  \<open>90\<close> and chapter \<open>"84"\<close> first with count \<open>2\<close>. But it does not count every
  record set: a record whose chapter label starts with \<open>constructor\<close> is in a bucket of
  one record, and its entry carries the text of the inherited function followed by \<open>1\<close>
  in place of the number \<open>1\<close>; a record whose bucket is \<open>__proto__\<close> is in a bucket
  of one record and gets no entry at all.
\<close>

theorem getStatistics_prototype_collision:
  "getStatistics (\<lambda>k q. \<lparr>data = Some example_rows, error = None, count = None\<rparr>)
     = Inr \<lparr>totalClassifications = 3, dualUseCount = 1, averageConfidence = 90,
            topChapters = [(''84'', Count 2), (''85'', Count 1)]\<rparr> \<and>
   occurrences ''constructor'' constructor_rows = 1 \<and>
   getStatistics (\<lambda>k q. \<lparr>data = Some constructor_rows, error = None, count = None\<rparr>)
     = Inr \<lparr>totalClassifications = 2, dualUseCount = 0, averageConfidence = 75,
            topChapters = [(''84'', Count 1),
                           (''constructor'', Text ''function Object() { [native code] }1'')]\<rparr> \<and>
   occurrences ''__proto__'' proto_rows = 1 \<and>
   getStatistics (\<lambda>k q. \<lparr>data = Some proto_rows, error = None, count = None\<rparr>)
     = Inr \<lparr>totalClassifications = 1, dualUseCount = 0, averageConfidence = 70,
            topChapters = []\<rparr>"
  by code_simp

text \<open>
  C10. On an empty record set \<open>getStatistics\<close> resolves with all counts \<open>0\<close>, mean
  \<open>0\<close> (the division is guarded by \<open>stats.length > 0\<close>) and no chapters.
\<close>

theorem getStatistics_empty:
  "getStatistics (\<lambda>k q. \<lparr>data = Some [], error = None, count = cnt\<rparr>)
     = Inr \<lparr>totalClassifications = 0, dualUseCount = 0, averageConfidence = 0, topChapters = []\<rparr>"
  by (simp add: getStatistics_def computeStatistics_def chapterCounts_def Object_entries_def
      sort_with_def)

section \<open>Search-term dispatch\<close>





section \<open>The convenience queries\<close>

lemma settle_error: "error r = Some e \<Longrightarrow> settle what ret r = Inl (Error (what @ '': '' @ message e))"
  by (simp add: settle_def)

text \<open>
  C2, as the code has it. None of the seven convenience queries is passed to
  \<open>retryOperation\<close>: each issues one request and its result depends on the answer to
  that request alone. When that request fails, \<open>getClassificationsByHSCode\<close>,
  \<open>getClassificationsByCustomer\<close> and \<open>getDualUseClassifications\<close> reject with an
  error that names the operation and carries the store's message, while
  \<open>findSimilarProducts\<close>, \<open>searchProductsByName\<close>, \<open>searchByHSCodePattern\<close> and
  \<open>searchCustomersByPattern\<close> resolve with the empty list.
\<close>

theorem convenience_queries_one_attempt:
  "(error (exec 0 (order_q ''created_at'' False (eq_q ''hs_code'' (PgText hsCode)
        (select_q ''*'' False (from_q ''classifications''))))) = Some e
    \<longrightarrow> getClassificationsByHSCode exec hsCode
          = Inl (Error (''Failed to fetch classifications by HS code: '' @ message e))) \<and>
   (error (exec 0 (order_q ''created_at'' False (eq_q ''customer_name'' (PgText customerName)
        (select_q ''*'' False (from_q ''classifications''))))) = Some e
    \<longrightarrow> getClassificationsByCustomer exec customerName
          = Inl (Error (''Failed to fetch classifications by customer: '' @ message e))) \<and>
   (error (exec 0 (order_q ''created_at'' False (eq_q ''is_dual_use'' (PgBool True)
        (select_q ''*'' False (from_q ''classifications''))))) = Some e
    \<longrightarrow> getDualUseClassifications exec
          = Inl (Error (''Failed to fetch dual-use classifications: '' @ message e))) \<and>
   (error (exec 0 (order_q ''created_at'' False (limit_q n
        (ilike_q ''product_name'' (''%'' @ productName @ ''%'')
          (select_q ''*'' False (from_q ''classifications'')))))) = Some e
    \<longrightarrow> findSimilarProducts exec productName n = Inr [] \<and>
        searchProductsByName exec productName n = Inr []) \<and>
   (error (exec 0 (order_q ''created_at'' False (ilike_q ''hs_code'' (hsCodePattern @ ''%'')
        (select_q ''*'' False (from_q ''classifications''))))) = Some e
    \<longrightarrow> searchByHSCodePattern exec hsCodePattern = Inr []) \<and>
   (error (exec 0 (order_q ''created_at'' False
        (ilike_q ''customer_name'' (''%'' @ customerPattern @ ''%'')
          (select_q ''*'' False (from_q ''classifications''))))) = Some e
    \<longrightarrow> searchCustomersByPattern exec customerPattern = Inr []) \<and>
   ((\<forall>q. exec' 0 q = exec 0 q) \<longrightarrow>
      getClassificationsByHSCode exec' hsCode = getClassificationsByHSCode exec hsCode \<and>
      getClassificationsByCustomer exec' customerName = getClassificationsByCustomer exec customerName \<and>
      getDualUseClassifications exec' = getDualUseClassifications exec \<and>
      findSimilarProducts exec' productName n = findSimilarProducts exec productName n \<and>
      searchProductsByName exec' productName n = searchProductsByName exec productName n \<and>
      searchByHSCodePattern exec' hsCodePattern = searchByHSCodePattern exec hsCodePattern \<and>
      searchCustomersByPattern exec' customerPattern = searchCustomersByPattern exec customerPattern)"
  by (simp add: getClassificationsByHSCode_def getClassificationsByCustomer_def
      getDualUseClassifications_def findSimilarProducts_def searchProductsByName_def
      searchByHSCodePattern_def searchCustomersByPattern_def settle_error)

text \<open>
  The claim as stated fails: \<open>findSimilarProducts\<close> turns a failed request into an empty
  result, and on a store whose first request fails to fetch \<open>getClassificationsByHSCode\<close>
  rejects where \<open>getClassifications\<close> retries after 1000 ms and resolves.
\<close>

theorem convenience_queries_counterexample:
  "findSimilarProducts (failing ''permission denied'') ''router'' 5 = Inr [] \<and>
   getClassificationsByHSCode flaky ''8471.30.01''
     = Inl (Error ''Failed to fetch classifications by HS code: TypeError: Failed to fetch'') \<and>
   getClassifications flaky None
     = \<lparr>outcome = Inr \<lparr>rows = [1, 2], total = 2\<rparr>, waits = [1000]\<rparr>"
proof -
  have "getClassifications flaky None
     = \<lparr>outcome = Inr \<lparr>rows = [1, 2], total = 2\<rparr>, waits = [1000]\<rparr>"
    unfolding getClassifications_def
    by (subst retryOperation.simps, simp add: flaky_def settle_def is_fetch_failure_def,
        subst retryOperation.simps, simp add: flaky_def settle_def or_empty_def)
  then show ?thesis
    by (simp add: findSimilarProducts_def failing_def getClassificationsByHSCode_def flaky_def settle_def)
qed

theorem convenience_queries_one_attempt_witness:
  "getClassificationsByHSCode (failing ''permission denied'') ''8471.30.01''
     = Inl (Error ''Failed to fetch classifications by HS code: permission denied'') \<and>
   getClassificationsByCustomer (failing ''permission denied'') ''Acme''
     = Inl (Error ''Failed to fetch classifications by customer: permission denied'') \<and>
   getDualUseClassifications (failing ''permission denied'')
     = Inl (Error ''Failed to fetch dual-use classifications: permission denied'') \<and>
   searchProductsByName (failing ''permission denied'') ''router'' 10 = Inr [] \<and>
   searchByHSCodePattern (failing ''permission denied'') ''8471'' = Inr [] \<and>
   searchCustomersByPattern (failing ''permission denied'') ''Acme'' = Inr [] \<and>
   getClassificationsByHSCode (\<lambda>k. flaky 0) ''8471.30.01'' = getClassificationsByHSCode flaky ''8471.30.01''"
  using convenience_queries_one_attempt [where exec = "failing ''permission denied''"
      and e = "\<lparr>message = ''permission denied'', code = ''42501''\<rparr>" and hsCode = "''8471.30.01''"
      and customerName = "''Acme''" and productName = "''router''" and n = 10
      and hsCodePattern = "''8471''" and customerPattern = "''Acme''" and exec' = "failing ''permission denied''"]
    convenience_queries_one_attempt [where exec = flaky and exec' = "\<lambda>k. flaky 0" and hsCode = "''8471.30.01''"]
  by (simp add: failing_def)

section \<open>Extraction of the classification\<close>

lemma greedy_close_None: "greedy_close s = None \<longleftrightarrow> CHR ''}'' \<notin> set s"
  by (induction s) (auto split: option.splits)

lemma greedy_close_last:
  "CHR ''}'' \<notin> set post \<Longrightarrow> greedy_close (mid @ CHR ''}'' # post) = Some (mid @ ''}'')"
proof (induction mid)
  case Nil
  then have "greedy_close post = None" by (simp add: greedy_close_None)
  then show ?case by simp
next
  case (Cons c mid)
  then show ?case by simp
qed

lemma jsonMatch_span:
  "CHR ''{'' \<notin> set pre \<Longrightarrow> CHR ''}'' \<notin> set post \<Longrightarrow>
   jsonMatch (pre @ ''{'' @ mid @ ''}'' @ post) = Some (''{'' @ mid @ ''}'')"
  by (induction pre) (auto simp: greedy_close_last)

lemma jsonMatch_None_iff:
  "jsonMatch s = None \<longleftrightarrow> (\<forall>a r. s = a @ CHR ''{'' # r \<longrightarrow> CHR ''}'' \<notin> set r)"
proof (induction s)
  case Nil
  show ?case by simp
next
  case (Cons c cs)
  show ?case
  proof (cases "c = CHR ''{'' \<and> greedy_close cs \<noteq> None")
    case True
    then have "jsonMatch (c # cs) \<noteq> None" by auto
    moreover have "c # cs = [] @ CHR ''{'' # cs \<and> CHR ''}'' \<in> set cs"
      using True by (simp add: greedy_close_None)
    ultimately show ?thesis by blast
  next
    case False
    then have eq: "jsonMatch (c # cs) = jsonMatch cs" by (auto split: option.splits)
    have "(\<forall>a r. c # cs = a @ CHR ''{'' # r \<longrightarrow> CHR ''}'' \<notin> set r)
          \<longleftrightarrow> (\<forall>a r. cs = a @ CHR ''{'' # r \<longrightarrow> CHR ''}'' \<notin> set r)"
    proof
      assume l: "\<forall>a r. c # cs = a @ CHR ''{'' # r \<longrightarrow> CHR ''}'' \<notin> set r"
      show "\<forall>a r. cs = a @ CHR ''{'' # r \<longrightarrow> CHR ''}'' \<notin> set r"
      proof (intro allI impI)
        fix a r assume "cs = a @ CHR ''{'' # r"
        then have "c # cs = (c # a) @ CHR ''{'' # r" by simp
        with l show "CHR ''}'' \<notin> set r" by blast
      qed
    next
      assume r: "\<forall>a r. cs = a @ CHR ''{'' # r \<longrightarrow> CHR ''}'' \<notin> set r"
      show "\<forall>a r. c # cs = a @ CHR ''{'' # r \<longrightarrow> CHR ''}'' \<notin> set r"
      proof (intro allI impI)
        fix a r' assume d: "c # cs = a @ CHR ''{'' # r'"
        show "CHR ''}'' \<notin> set r'"
        proof (cases a)
          case Nil
          with d have "c = CHR ''{''" and "r' = cs" by simp_all
          with False show ?thesis by (simp add: greedy_close_None)
        next
          case (Cons x a')
          with d have "cs = a' @ CHR ''{'' # r'" by simp
          with r show ?thesis by blast
        qed
      qed
    qed
    with eq Cons.IH show ?thesis by simp
  qed
qed

lemma jsonMatch_None:
  "jsonMatch s = None \<longleftrightarrow> \<not> (\<exists>a b c. s = a @ ''{'' @ b @ ''}'' @ c)"
proof
  assume "jsonMatch s = None"
  then have n: "\<forall>a r. s = a @ CHR ''{'' # r \<longrightarrow> CHR ''}'' \<notin> set r"
    using jsonMatch_None_iff [of s] by blast
  show "\<not> (\<exists>a b c. s = a @ ''{'' @ b @ ''}'' @ c)"
  proof
    assume "\<exists>a b c. s = a @ ''{'' @ b @ ''}'' @ c"
    then obtain a b c where "s = a @ CHR ''{'' # (b @ CHR ''}'' # c)" by auto
    with n have "CHR ''}'' \<notin> set (b @ CHR ''}'' # c)" by blast
    then show False by simp
  qed
next
  assume n: "\<not> (\<exists>a b c. s = a @ ''{'' @ b @ ''}'' @ c)"
  have "\<forall>a r. s = a @ CHR ''{'' # r \<longrightarrow> CHR ''}'' \<notin> set r"
  proof (intro allI impI notI)
    fix a r assume s: "s = a @ CHR ''{'' # r" and "CHR ''}'' \<in> set r"
    then obtain b c where "r = b @ CHR ''}'' # c" by (auto dest: split_list)
    with s have "s = a @ ''{'' @ b @ ''}'' @ c" by simp
    with n show False by blast
  qed
  then show "jsonMatch s = None" using jsonMatch_None_iff [of s] by blast
qed

lemma classification_failed_Error: "classification_failed (Error msg) = Error (''Classification failed: '' @ msg)"
  by (simp add: classification_failed_def)

lemma validate_object:
  "truthy (map_of props ''hsCode'') \<Longrightarrow> truthy (map_of props ''chapter'') \<Longrightarrow>
   truthy (map_of props ''description'') \<Longrightarrow> validate (JObj props) = Inr (JObj props)"
  by (simp add: validate_def)

lemma JSON_parse_completion_text: "JSON_parse completion_text = Inr completion_object"
  by code_simp

lemma absent_or_empty_falsy: "absent_or_empty v \<Longrightarrow> \<not> truthy v"
  by (auto simp: absent_or_empty_def)

lemma validate_incomplete:
  "\<not> truthy (map_of props ''hsCode'') \<or> \<not> truthy (map_of props ''chapter'')
     \<or> \<not> truthy (map_of props ''description'')
   \<Longrightarrow> validate (JObj props) = Inl (Error ''Incomplete classification data from OpenAI'')"
  by (auto simp: validate_def)

lemma jsonMatch_nonempty: "jsonMatch response = Some m \<Longrightarrow> response \<noteq> []"
  by auto

text \<open>
  C3, as the code has it. When the text from the first \<open>{\<close> of the completion to its last
  \<open>}\<close> parses to an object whose \<open>hsCode\<close>, \<open>chapter\<close> and
  \<open>description\<close> are truthy (there, and none of \<open>null\<close>, \<open>false\<close>, \<open>0\<close>
  or the empty string), \<open>classifyProduct\<close> resolves with the parsed object itself, so
  that every field of the classification, \<open>confidence\<close> included, is the parsed value,
  unchanged.
\<close>

theorem well_formed_object_returned:
  "CHR ''{'' \<notin> set pre \<and> CHR ''}'' \<notin> set post \<and>
   parse (''{'' @ mid @ ''}'') = Inr (JObj props) \<and>
   truthy (map_of props ''hsCode'') \<and> truthy (map_of props ''chapter'') \<and>
   truthy (map_of props ''description'')
   \<longrightarrow> classifyProduct parse (Inr (Some (pre @ ''{'' @ mid @ ''}'' @ post))) = Inr (JObj props)"
proof
  assume a: "CHR ''{'' \<notin> set pre \<and> CHR ''}'' \<notin> set post \<and>
   parse (''{'' @ mid @ ''}'') = Inr (JObj props) \<and>
   truthy (map_of props ''hsCode'') \<and> truthy (map_of props ''chapter'') \<and>
   truthy (map_of props ''description'')"
  then have m: "jsonMatch (pre @ ''{'' @ mid @ ''}'' @ post) = Some (''{'' @ mid @ ''}'')"
    using jsonMatch_span [of pre post mid] by blast
  have "extraction parse (Some (pre @ ''{'' @ mid @ ''}'' @ post)) = Inr (JObj props)"
    unfolding extraction_def using a m by (simp add: validate_object)
  then show "classifyProduct parse (Inr (Some (pre @ ''{'' @ mid @ ''}'' @ post))) = Inr (JObj props)"
    by (simp add: classifyProduct_def)
qed

text \<open>
  The claim as stated fails twice. A completion can contain a single well-formed object with
  all required fields and be rejected when a \<open>}\<close> follows the object: the match then
  runs to that last \<open>}\<close> and does not parse. And an object in which all three required
  fields are there and none is an empty string is rejected when one of them is not truthy,
  as the number \<open>0\<close> is.
\<close>

theorem well_formed_object_counterexample:
  "JSON_parse completion_text = Inr completion_object \<and>
   truthy (field completion_object ''hsCode'') \<and>
   truthy (field completion_object ''chapter'') \<and>
   truthy (field completion_object ''description'') \<and>
   jsonMatch (completion_text @ '' :-}'') = Some (completion_text @ '' :-}'') \<and>
   JSON_parse (completion_text @ '' :-}'') = Inl syntax_error \<and>
   classifyProduct JSON_parse (Inr (Some (completion_text @ '' :-}'')))
     = Inl (classification_failed syntax_error) \<and>
   jsonMatch zero_code_text = Some zero_code_text \<and>
   JSON_parse zero_code_text = Inr zero_code_object \<and>
   \<not> absent_or_empty (field zero_code_object ''hsCode'') \<and>
   \<not> absent_or_empty (field zero_code_object ''chapter'') \<and>
   \<not> absent_or_empty (field zero_code_object ''description'') \<and>
   classifyProduct JSON_parse (Inr (Some zero_code_text))
     = Inl (Error ''Classification failed: Incomplete classification data from OpenAI'')"
  by code_simp

theorem well_formed_object_returned_witness:
  "classifyProduct JSON_parse (Inr (Some (''Here you go: '' @ completion_text @ '' Thanks.'')))
     = Inr completion_object"
proof -
  have p: "JSON_parse (''{'' @ completion_inner @ ''}'') = Inr completion_object"
    using JSON_parse_completion_text by (simp add: completion_text_def)
  have "CHR ''{'' \<notin> set ''Here you go: ''" and "CHR ''}'' \<notin> set '' Thanks.''"
    by simp_all
  then show ?thesis
    using p well_formed_object_returned [of "''Here you go: ''" "'' Thanks.''" JSON_parse completion_inner
        "[(''hsCode'', JStr ''8471.30.01''), (''chapter'', JStr ''84 - Machines''),
           (''description'', JStr ''Laptops''), (''confidence'', JNum 85),
           (''isDualUse'', JBool False)]"]
    by (simp add: completion_object_def completion_text_def)
qed

text \<open>
  C5, as the code has it. A completion text that is not empty and has no \<open>{\<close> followed
  by a \<open>}\<close> makes \<open>classifyProduct\<close> reject with the message
  \<open>Invalid JSON response from OpenAI\<close> inside the wrapper \<open>Classification failed: \<close>,
  the wrapper that a rejection of the completion call itself gets as well.
\<close>

theorem no_braces_invalid_json:
  "(response \<noteq> [] \<and> \<not> (\<exists>a b c. response = a @ ''{'' @ b @ ''}'' @ c) \<longrightarrow>
    classifyProduct parse (Inr (Some response))
      = Inl (Error ''Classification failed: Invalid JSON response from OpenAI'')) \<and>
   classifyProduct parse (Inl (Error msg)) = Inl (Error (''Classification failed: '' @ msg))"
proof (intro conjI impI)
  assume a: "response \<noteq> [] \<and> \<not> (\<exists>a b c. response = a @ ''{'' @ b @ ''}'' @ c)"
  then have "jsonMatch response = None" using jsonMatch_None [of response] by blast
  with a show "classifyProduct parse (Inr (Some response))
     = Inl (Error ''Classification failed: Invalid JSON response from OpenAI'')"
    by (simp add: classifyProduct_def extraction_def classification_failed_Error)
next
  show "classifyProduct parse (Inl (Error msg)) = Inl (Error (''Classification failed: '' @ msg))"
    by (simp add: classifyProduct_def classification_failed_Error)
qed

text \<open>
  The claim as stated fails on the empty text, which has no braces: the guard
  \<open>if (!response)\<close> comes first and the message is \<open>No response from OpenAI\<close>.
\<close>

theorem no_braces_counterexample:
  "jsonMatch [] = None \<and>
   classifyProduct JSON_parse (Inr (Some []))
     = Inl (Error ''Classification failed: No response from OpenAI'') \<and>
   classifyProduct JSON_parse (Inr (Some []))
     \<noteq> Inl (Error ''Classification failed: Invalid JSON response from OpenAI'')"
  by (simp add: classifyProduct_def extraction_def classification_failed_Error)

theorem no_braces_invalid_json_witness:
  "classifyProduct JSON_parse (Inr (Some ''I cannot classify this product.''))
     = Inl (Error ''Classification failed: Invalid JSON response from OpenAI'') \<and>
   classifyProduct JSON_parse (Inl (Error ''401 Incorrect API key provided''))
     = Inl (Error ''Classification failed: 401 Incorrect API key provided'')"
proof -
  have "jsonMatch ''I cannot classify this product.'' = None" by simp
  then have "\<not> (\<exists>a b c. ''I cannot classify this product.'' = a @ ''{'' @ b @ ''}'' @ c)"
    using jsonMatch_None [of "''I cannot classify this product.''"] by blast
  then show ?thesis
    using no_braces_invalid_json [of "''I cannot classify this product.''" JSON_parse
        "''401 Incorrect API key provided''"]
    by simp
qed

text \<open>
  C6. When the matched text parses to an object in which \<open>hsCode\<close>, \<open>chapter\<close>
  or \<open>description\<close> is missing or the empty string, the validation throws
  \<open>Incomplete classification data from OpenAI\<close> and \<open>classifyProduct\<close> rejects with
  that message (inside its wrapper); no classification is returned.
\<close>

theorem incomplete_object_rejected:
  "jsonMatch response = Some m \<and> parse m = Inr (JObj props) \<and>
   (absent_or_empty (map_of props ''hsCode'') \<or> absent_or_empty (map_of props ''chapter'')
      \<or> absent_or_empty (map_of props ''description''))
   \<longrightarrow> validate (JObj props) = Inl (Error ''Incomplete classification data from OpenAI'') \<and>
       classifyProduct parse (Inr (Some response))
         = Inl (Error ''Classification failed: Incomplete classification data from OpenAI'')"
proof
  assume a: "jsonMatch response = Some m \<and> parse m = Inr (JObj props) \<and>
   (absent_or_empty (map_of props ''hsCode'') \<or> absent_or_empty (map_of props ''chapter'')
      \<or> absent_or_empty (map_of props ''description''))"
  then have v: "validate (JObj props) = Inl (Error ''Incomplete classification data from OpenAI'')"
    using absent_or_empty_falsy validate_incomplete by blast
  have "response \<noteq> []" using a jsonMatch_nonempty by blast
  then have "extraction parse (Some response) = Inl (Error ''Incomplete classification data from OpenAI'')"
    using a v by (simp add: extraction_def)
  then show "validate (JObj props) = Inl (Error ''Incomplete classification data from OpenAI'') \<and>
       classifyProduct parse (Inr (Some response))
         = Inl (Error ''Classification failed: Incomplete classification data from OpenAI'')"
    using v by (simp add: classifyProduct_def classification_failed_Error)
qed

lemma incomplete_text_parsed:
  "jsonMatch incomplete_text = Some (drop 8 incomplete_text) \<and>
   JSON_parse (drop 8 incomplete_text)
     = Inr (JObj [(''hsCode'', JStr []), (''chapter'', JStr ''84 - Machines'')])"
  by code_simp

theorem incomplete_object_rejected_witness:
  "classifyProduct JSON_parse (Inr (Some incomplete_text))
     = Inl (Error ''Classification failed: Incomplete classification data from OpenAI'') \<and>
   classifyProduct JSON_parse (Inr (Some ''{}''))
     = Inl (Error ''Classification failed: Incomplete classification data from OpenAI'')"
proof -
  have e: "jsonMatch ''{}'' = Some ''{}'' \<and> JSON_parse ''{}'' = Inr (JObj [])"
    by code_simp
  show ?thesis
    using incomplete_text_parsed e
      incomplete_object_rejected [of incomplete_text "drop 8 incomplete_text" JSON_parse
        "[(''hsCode'', JStr []), (''chapter'', JStr ''84 - Machines'')]"]
      incomplete_object_rejected [of "''{}''" "''{}''" JSON_parse "[]"]
    by (simp add: absent_or_empty_def)
qed

section \<open>Link generation\<close>

text \<open>
  C1. On \<open>"8471.30.01"\<close> the chapter link ends in \<open>84\<close>, but the search link ends in
  \<open>8471.3\<close>: \<open>substring(0, 6)\<close> counts the dot, so the link does not reference the
  six-digit root \<open>847130\<close> that the comment in the code announces.
\<close>

theorem generateWTOLink_dotted_code:
  "chapter_link (generateWTOLink ''8471.30.01'')
     = ''https://www.foreign-trade.com/reference/hscode.cfm?code=84'' \<and>
   search (generateWTOLink ''8471.30.01'') = ''https://www.tariffnumber.com/2022/8471.3'' \<and>
   \<not> includes_str (search (generateWTOLink ''8471.30.01'')) ''847130''"
  by (simp add: generateWTOLink_def)

section \<open>A failed save after a classification\<close>

text \<open>
  C9. When \<open>classifyProduct\<close> resolved with \<open>c\<close> and the call of
  \<open>saveClassification\<close> that follows was rejected, the result built from \<open>c\<close> is
  still put in front of the displayed results, no error message is set and the loading flag
  is cleared.
\<close>

theorem save_failure_keeps_result:
  "classifyProduct parse completion = Inr c \<and>
   save (handleClassification parse completion exec now stamp productName customerName s) = Some saved \<and>
   outcome saved = Inl e
   \<longrightarrow> (\<exists>h. field c ''hsCode'' = Some (JStr h) \<and>
          results (state (handleClassification parse completion exec now stamp productName customerName s))
            = \<lparr>res_id = decimal now,
                res_productName = productName,
                res_hsCode = Some (JStr h),
                res_chapter = field c ''chapter'',
                res_description = field c ''description'',
                res_confidence = field c ''confidence'',
                res_wtoLink = search (generateWTOLink h),
                res_isDualUse = field c ''isDualUse'',
                res_timestamp = stamp,
                res_customerName = customerName,
                res_reasoning = field c ''reasoning'',
                res_links = generateWTOLink h\<rparr> # results s) \<and>
       ui_error (state (handleClassification parse completion exec now stamp productName customerName s)) = None \<and>
       isLoading (state (handleClassification parse completion exec now stamp productName customerName s)) = False"
proof
  assume a: "classifyProduct parse completion = Inr c \<and>
   save (handleClassification parse completion exec now stamp productName customerName s) = Some saved \<and>
   outcome saved = Inl e"
  then obtain hs where hs: "get_prop c ''hsCode'' = Inr hs"
    by (cases "get_prop c ''hsCode''") (auto simp: handleClassification_def Let_def)
  with a obtain links where links: "call_generateWTOLink hs = Inr links"
    by (cases "call_generateWTOLink hs") (auto simp: handleClassification_def Let_def)
  then obtain h where h: "hs = Some (JStr h)" and l: "links = generateWTOLink h"
    by (auto simp: call_generateWTOLink_def split: option.splits json.splits)
  have f: "field c ''hsCode'' = Some (JStr h)"
    using hs h by (simp add: field_def)
  show "(\<exists>h. field c ''hsCode'' = Some (JStr h) \<and>
          results (state (handleClassification parse completion exec now stamp productName customerName s))
            = \<lparr>res_id = decimal now,
                res_productName = productName,
                res_hsCode = Some (JStr h),
                res_chapter = field c ''chapter'',
                res_description = field c ''description'',
                res_confidence = field c ''confidence'',
                res_wtoLink = search (generateWTOLink h),
                res_isDualUse = field c ''isDualUse'',
                res_timestamp = stamp,
                res_customerName = customerName,
                res_reasoning = field c ''reasoning'',
                res_links = generateWTOLink h\<rparr> # results s) \<and>
       ui_error (state (handleClassification parse completion exec now stamp productName customerName s)) = None \<and>
       isLoading (state (handleClassification parse completion exec now stamp productName customerName s)) = False"
    using a hs h l links f by (simp add: handleClassification_def Let_def)
qed

lemma offline_save_rejects:
  "saveClassification offline dbRecord
     = \<lparr>outcome = Inl (Error ''Failed to save classification: TypeError: Failed to fetch''),
        waits = [1000, 1500]\<rparr>"
  unfolding saveClassification_def
  by (subst retryOperation.simps, simp add: offline_def settle_def is_fetch_failure_def,
      subst retryOperation.simps, simp add: offline_def settle_def is_fetch_failure_def,
      subst retryOperation.simps, simp add: offline_def settle_def is_fetch_failure_def)

lemma classify_completion_text:
  "classifyProduct JSON_parse (Inr (Some completion_text)) = Inr completion_object"
  by code_simp

theorem save_failure_keeps_result_witness:
  "save (handleClassification JSON_parse (Inr (Some completion_text)) offline 1700000000000 1700000000001
          ''laptop'' None \<lparr>results = [], isLoading = False, ui_error = None\<rparr>)
     = Some \<lparr>outcome = Inl (Error ''Failed to save classification: TypeError: Failed to fetch''),
             waits = [1000, 1500]\<rparr> \<and>
   map res_hsCode (results (state (handleClassification JSON_parse (Inr (Some completion_text)) offline
          1700000000000 1700000000001 ''laptop'' None \<lparr>results = [], isLoading = False, ui_error = None\<rparr>)))
     = [Some (JStr ''8471.30.01'')] \<and>
   ui_error (state (handleClassification JSON_parse (Inr (Some completion_text)) offline
          1700000000000 1700000000001 ''laptop'' None \<lparr>results = [], isLoading = False, ui_error = None\<rparr>))
     = None"
proof -
  let ?sub = "handleClassification JSON_parse (Inr (Some completion_text)) offline
          1700000000000 1700000000001 ''laptop'' None \<lparr>results = [], isLoading = False, ui_error = None\<rparr>"
  have f: "field completion_object ''hsCode'' = Some (JStr ''8471.30.01'')"
    by (simp add: field_def completion_object_def)
  have sv: "save ?sub = Some \<lparr>outcome = Inl (Error ''Failed to save classification: TypeError: Failed to fetch''),
             waits = [1000, 1500]\<rparr>"
    by (simp add: handleClassification_def Let_def classify_completion_text offline_save_rejects
        completion_object_def call_generateWTOLink_def)
  show ?thesis
    using sv f classify_completion_text
      save_failure_keeps_result [of JSON_parse "Inr (Some completion_text)" completion_object offline
        1700000000000 1700000000001 "''laptop''" None "\<lparr>results = [], isLoading = False, ui_error = None\<rparr>"
        "\<lparr>outcome = Inl (Error ''Failed to save classification: TypeError: Failed to fetch''),
             waits = [1000, 1500]\<rparr>" "Error ''Failed to save classification: TypeError: Failed to fetch''"]
    by auto
qed

end
